theory Spec2Isabelle
  imports
    Main
    "HOL-Library.AList"
    "HOL-Library.Char_ord"
    "HOL-Library.List_Lexorder"
    "HOL-Library.Multiset"
begin

section \<open>Strings\<close>

text \<open>
  Python strings are modelled as \<^typ>\<open>string\<close>, a character being a code point below 256;
  comparison is the lexicographic order on code points, which is the order Python's
  \<open>sorted\<close> uses on \<open>str\<close>. The value \<open>None\<close> is modelled by \<^term>\<open>None\<close> of an option
  type.
\<close>

text \<open>
  \<open>str.lower\<close>: below 256 the upper-case letters are \<open>A\<close> to \<open>Z\<close> and the code points
  \<open>0xC0\<close> to \<open>0xDE\<close> without the multiplication sign \<open>0xD7\<close>; each is 32 below its
  lower-case letter.
\<close>

definition is_upper :: "char \<Rightarrow> bool" where
  "is_upper c \<longleftrightarrow>
     (let n = (of_char c :: nat)
      in (65 \<le> n \<and> n \<le> 90) \<or> (192 \<le> n \<and> n \<le> 222 \<and> n \<noteq> 215))"

definition lower_char :: "char \<Rightarrow> char" where
  "lower_char c = (if is_upper c then char_of (of_char c + (32::nat)) else c)"

definition lower :: "string \<Rightarrow> string" where
  "lower s = map lower_char s"

text \<open>\<open>s.split(sep)\<close> for a one-character separator: never the empty list.\<close>

fun split_on :: "char \<Rightarrow> string \<Rightarrow> string list" where
  "split_on sep [] = [[]]"
| "split_on sep (c # cs) =
     (if c = sep then [] # split_on sep cs
      else (case split_on sep cs of
              w # ws \<Rightarrow> (c # w) # ws
            | [] \<Rightarrow> [[c]]))"

text \<open>\<open>s.split('.')[0]\<close>: the index 0 always exists, since the split is never empty.\<close>

definition first_segment :: "string \<Rightarrow> string" where
  "first_segment s = (case split_on CHR ''.'' s of w # ws \<Rightarrow> w | [] \<Rightarrow> [])"

definition endswith :: "string \<Rightarrow> string \<Rightarrow> bool" where
  "endswith s suf \<longleftrightarrow> length suf \<le> length s \<and> drop (length s - length suf) s = suf"

text \<open>
  The code points below 256 for which \<open>str.isspace\<close> holds (tab to carriage return, the
  four separators, the space, next line and no-break space), and \<open>str.strip()\<close>.
\<close>

definition is_space :: "char \<Rightarrow> bool" where
  "is_space c \<longleftrightarrow>
     (let n = (of_char c :: nat)
      in (9 \<le> n \<and> n \<le> 13) \<or> (28 \<le> n \<and> n \<le> 32) \<or> n = 133 \<or> n = 160)"

definition strip :: "string \<Rightarrow> string" where
  "strip s = rev (dropWhile is_space (rev (dropWhile is_space s)))"

text \<open>Truthiness of a value that is \<open>None\<close> or a string.\<close>

fun truthy :: "string option \<Rightarrow> bool" where
  "truthy None = False"
| "truthy (Some s) = (s \<noteq> [])"

text \<open>\<open>str(v)\<close> as an f-string renders it, for a value that is \<open>None\<close> or a string.\<close>

fun py_format :: "string option \<Rightarrow> string" where
  "py_format None = ''None''"
| "py_format (Some s) = s"


section \<open>Configuration tables\<close>

text \<open>\<open>d.get(k, default)\<close> on a dictionary literal given as an association list.\<close>

definition dict_get :: "('k \<times> 'v) list \<Rightarrow> 'k \<Rightarrow> 'v \<Rightarrow> 'v" where
  "dict_get d k dflt = (case map_of d k of Some v \<Rightarrow> v | None \<Rightarrow> dflt)"

text \<open>\<open>IMPORT_TO_PYPI_MAP\<close> of \<open>FirstEdition.py\<close>.\<close>

definition IMPORT_TO_PYPI_MAP :: "(string \<times> string) list" where
  "IMPORT_TO_PYPI_MAP =
    [(''corsheaders'', ''django-cors-headers''),
     (''rest_framework'', ''djangorestframework''),
     (''rest_framework_simplejwt'', ''djangorestframework-simplejwt''),
     (''django_filters'', ''django-filter''),
     (''crispy_forms'', ''django-crispy-forms''),
     (''cloudinary_storage'', ''django-cloudinary-storage''),
     (''bs4'', ''beautifulsoup4''),
     (''dateutil'', ''python-dateutil''),
     (''dotenv'', ''python-dotenv''),
     (''jose'', ''python-jose''),
     (''jwt'', ''PyJWT''),
     (''PIL'', ''Pillow''),
     (''werkzeug'', ''Werkzeug''),
     (''jinja2'', ''Jinja2''),
     (''cv2'', ''opencv-python''),
     (''faiss'', ''faiss-cpu''),
     (''sklearn'', ''scikit-learn''),
     (''tavily'', ''tavily-python''),
     (''yaml'', ''PyYAML''),
     (''psycopg2'', ''psycopg2-binary''),
     (''MySQLdb'', ''mysqlclient''),
     (''Crypto'', ''pycryptodome''),
     (''pkg_resources'', ''setuptools''),
     (''youtube_search'', ''youtube-search'')]"

text \<open>\<open>IMPORT_TO_PYPI_MAP\<close> of \<open>GeminiWay.py\<close>.\<close>

definition GEMINI_IMPORT_TO_PYPI_MAP :: "(string \<times> string) list" where
  "GEMINI_IMPORT_TO_PYPI_MAP =
    [(''bs4'', ''beautifulsoup4''),
     (''cv2'', ''opencv-python''),
     (''dateutil'', ''python-dateutil''),
     (''dotenv'', ''python-dotenv''),
     (''PIL'', ''Pillow''),
     (''sklearn'', ''scikit-learn''),
     (''yaml'', ''PyYAML''),
     (''rest_framework'', ''djangorestframework''),
     (''corsheaders'', ''django-cors-headers''),
     (''jose'', ''python-jose''),
     (''jwt'', ''PyJWT''),
     (''youtube_search'', ''youtube-search'')]"

text \<open>
  \<open>KNOWN_CLI_AND_CONFIG_TOOLS\<close> is a Python set: its members are fixed, the order in which a
  \<open>for\<close> loop visits them is not. The members are listed here; a loop over the set takes
  its iteration order as a parameter, any list accepted by \<open>tool_iteration\<close>.
\<close>

definition KNOWN_CLI_AND_CONFIG_TOOLS :: "string list" where
  "KNOWN_CLI_AND_CONFIG_TOOLS =
    [''gunicorn'', ''uvicorn'', ''daphne'', ''whitenoise'', ''black'',
     ''isort'', ''flake8'', ''mypy'', ''pytest'', ''pip-tools'']"

definition tool_iteration :: "string list \<Rightarrow> bool" where
  "tool_iteration order \<longleftrightarrow> distinct order \<and> set order = set KNOWN_CLI_AND_CONFIG_TOOLS"

definition exclude_dirs :: "string set" where
  "exclude_dirs =
    {''.venv'', ''venv'', ''env'', ''build'', ''dist'', ''.git'', ''__pycache__'', ''node_modules''}"


section \<open>The package-metadata index\<close>

text \<open>
  \<open>importlib.metadata.distribution(name)\<close> either raises \<open>PackageNotFoundError\<close>
  (\<^term>\<open>None\<close>) or returns a distribution, of which the code reads \<open>version\<close> and
  \<open>metadata['Name']\<close>; either may be \<open>None\<close> when the metadata lacks the field.
\<close>

record distribution =
  dist_version :: "string option"
  dist_name :: "string option"

type_synonym metadata_index = "string \<Rightarrow> distribution option"

text \<open>\<open>_get_package_info\<close>: the pair \<open>(version, pypi_name)\<close>, or \<open>(None, None)\<close>.\<close>

definition get_package_info :: "metadata_index \<Rightarrow> string \<Rightarrow> string option \<times> string option" where
  "get_package_info idx name =
     (case idx name of
        Some dist \<Rightarrow> (dist_version dist, dist_name dist)
      | None \<Rightarrow> (None, None))"


section \<open>The syntactic variant: filtering and resolution\<close>

text \<open>
  The state of a \<open>RequirementsGenerator\<close>. \<open>final_requirements\<close> is a dictionary, kept as
  an association list in insertion order (the order \<open>items()\<close> yields); \<open>d[k] = v\<close> is
  \<^const>\<open>AList.update\<close>, which replaces the value of a present key in place and appends an
  absent one. \<open>queries\<close> records the names passed to the metadata index, in call order.
\<close>

record generator =
  std_lib :: "string set"
  local_modules :: "string set"
  final_requirements :: "(string \<times> string option) list"
  unresolved_imports :: "string set"
  queries :: "string list"

definition dict_keys :: "('k \<times> 'v) list \<Rightarrow> 'k set" where
  "dict_keys d = fst ` set d"

text \<open>
  Step 2 of \<open>run\<close>: the set comprehension over \<open>discovered_imports\<close>. The argument lists the
  members of the set in the order the comprehension visits them.
\<close>

definition keep_import :: "string set \<Rightarrow> string set \<Rightarrow> string \<Rightarrow> bool" where
  "keep_import std local imp \<longleftrightarrow> imp \<noteq> [] \<and> imp \<notin> std \<and> imp \<notin> local"

definition external_imports :: "generator \<Rightarrow> string list \<Rightarrow> string set" where
  "external_imports g discovered =
     set (filter (keep_import (std_lib g) (local_modules g)) discovered)"

text \<open>Step 3 of \<open>run\<close>: the body of the loop, for one import name.\<close>

definition resolve_import :: "metadata_index \<Rightarrow> string \<Rightarrow> generator \<Rightarrow> generator" where
  "resolve_import idx imp g =
     (let pypi_name_to_check = dict_get IMPORT_TO_PYPI_MAP imp imp;
          (version, pypi_name) = get_package_info idx pypi_name_to_check;
          g = g\<lparr>queries := queries g @ [pypi_name_to_check]\<rparr>;
          unresolved = g\<lparr>unresolved_imports := insert imp (unresolved_imports g)\<rparr>
      in case pypi_name of
           None \<Rightarrow> unresolved
         | Some name \<Rightarrow>
             if name = [] then unresolved
             else if name \<notin> dict_keys (final_requirements g)
             then g\<lparr>final_requirements := AList.update name version (final_requirements g)\<rparr>
             else g)"

definition resolve_imports :: "metadata_index \<Rightarrow> string list \<Rightarrow> generator \<Rightarrow> generator" where
  "resolve_imports idx imps g = fold (resolve_import idx) imps g"

text \<open>Step 4 of \<open>run\<close>: the body of the loop over the known tools, for one tool.\<close>

definition check_tool :: "metadata_index \<Rightarrow> string \<Rightarrow> generator \<Rightarrow> generator" where
  "check_tool idx tool g =
     (if tool \<in> dict_keys (final_requirements g) then g
      else
        (let (version, pypi_name) = get_package_info idx tool;
             g = g\<lparr>queries := queries g @ [tool]\<rparr>
         in case pypi_name of
              None \<Rightarrow> g
            | Some name \<Rightarrow>
                if name = [] then g
                else g\<lparr>final_requirements := AList.update name version (final_requirements g)\<rparr>))"

definition check_tools :: "metadata_index \<Rightarrow> string list \<Rightarrow> generator \<Rightarrow> generator" where
  "check_tools idx order g = fold (check_tool idx) order g"

text \<open>
  Steps 2 to 4 of \<open>run\<close>, from the discovered names: \<open>sorted(list(external_imports))\<close> is
  the sorted list of the set's members.
\<close>

definition resolve_discovered ::
  "metadata_index \<Rightarrow> string list \<Rightarrow> string list \<Rightarrow> generator \<Rightarrow> generator" where
  "resolve_discovered idx order discovered g =
     check_tools idx order
       (resolve_imports idx (sorted_list_of_set (external_imports g discovered)) g)"


section \<open>The manifest writer\<close>

text \<open>
  \<open>write_file\<close> opens the target with mode \<open>'w'\<close>, which truncates an existing file, so the
  file's content afterwards is exactly the text written; the functions return that text.
  \<open>sorted(..., key=...)\<close> is stable, as \<^const>\<open>sort_key\<close> is.
\<close>

definition newline :: string where
  "newline = [CHR 0x0A]"

definition first_edition_header :: string where
  "first_edition_header =
     ''# Generated by project scanner. Review for accuracy.'' @ newline @
     ''# This file lists direct dependencies. Sub-dependencies are handled by pip.'' @ newline @
     newline"

definition requirement_line :: "string \<times> string option \<Rightarrow> string" where
  "requirement_line item =
     (case item of (package, version) \<Rightarrow>
        if truthy version then package @ ''=='' @ py_format version @ newline
        else package @ newline)"

definition write_file :: "(string \<times> string option) list \<Rightarrow> string" where
  "write_file reqs =
     first_edition_header @ concat (map requirement_line (sort_key (\<lambda>item. lower (fst item)) reqs))"


section \<open>Syntax trees and the project tree\<close>

text \<open>
  What \<open>ast.parse\<close> returns, as far as the scanners look at it: \<open>Import\<close> with the names of
  its aliases, \<open>ImportFrom\<close> with \<open>module\<close> (which is \<open>None\<close> for \<open>from . import x\<close>) and
  \<open>level\<close>, \<open>Assign\<close> with its targets and value, and any other node with its child nodes.
  The parser gives every \<open>ImportFrom\<close> of level 0 a non-empty module.
\<close>

datatype const_value = Str string | Non_str

datatype expr =
    Name string
  | Constant const_value
  | List_expr "expr list"
  | Tuple_expr "expr list"
  | Other_expr

datatype node =
    Import "string list"
  | ImportFrom "string option" nat
  | Assign "expr list" expr
  | Node "node list"

fun iter_child_nodes :: "node \<Rightarrow> node list" where
  "iter_child_nodes (Node children) = children"
| "iter_child_nodes n = []"

text \<open>\<open>ast.walk\<close>: breadth first, from a queue holding the root.\<close>

function ast_walk_queue :: "node list \<Rightarrow> node list" where
  "ast_walk_queue [] = []"
| "ast_walk_queue (n # todo) = n # ast_walk_queue (todo @ iter_child_nodes n)"
  by pat_completeness auto

termination ast_walk_queue
proof (relation "measure (\<lambda>todo. sum_list (map (\<lambda>n. Suc (size n)) todo))")
  show "wf (measure (\<lambda>todo. sum_list (map (\<lambda>n. Suc (size n)) todo)))"
    by simp
next
  fix n :: node and todo :: "node list"
  have "sum_list (map (\<lambda>n. Suc (size n)) (iter_child_nodes n)) < Suc (size n)"
    by (cases n) (simp_all add: size_list_conv_sum_list sum_list_Suc)
  then show "(todo @ iter_child_nodes n, n # todo)
               \<in> measure (\<lambda>todo. sum_list (map (\<lambda>n. Suc (size n)) todo))"
    by simp
qed

definition ast_walk :: "node \<Rightarrow> node list" where
  "ast_walk tree = ast_walk_queue [tree]"

text \<open>
  A file as the scanners meet it: opening or decoding it raises (\<open>Unreadable\<close>, with the
  text of the exception), or it has a text and \<open>ast.parse\<close> of the text either raises
  (\<^term>\<open>None\<close>) or returns a tree.
\<close>

datatype source = Unreadable string | Text string "node option"

text \<open>
  A directory as \<open>os.walk\<close> lists it: its own name, its files and the subdirectories the
  walk descends into, each in the order the operating system lists them.
\<close>

datatype dir = Dir (dname: string) (files: "(string \<times> source) list") (subdirs: "dir list")

definition filenames :: "dir \<Rightarrow> string list" where
  "filenames d = map fst (files d)"

definition listdir :: "dir \<Rightarrow> string list" where
  "listdir d = map dname (subdirs d) @ filenames d"

text \<open>
  \<open>os.walk(root)\<close>, top down. A visit is the directory with the chain of its ancestors, from
  the root down to its parent, so that \<open>dirpath\<close> is the names of the chain followed by the
  directory's own. \<open>keep\<close> is the pruning a loop body applies to \<open>dirnames\<close> in place.
\<close>

fun os_walk :: "(string \<Rightarrow> bool) \<Rightarrow> dir list \<Rightarrow> dir \<Rightarrow> (dir list \<times> dir) list" where
  "os_walk keep ancestors (Dir name fs subs) =
     (ancestors, Dir name fs subs) #
     concat (map (os_walk keep (ancestors @ [Dir name fs subs]))
                 (filter (\<lambda>sub. keep (dname sub)) subs))"


section \<open>The syntactic variant: scanning the project\<close>

text \<open>\<open>_find_local_modules\<close>: \<open>os.path.basename(dirpath)\<close> is the visited directory's name.\<close>

definition find_local_modules :: "dir \<Rightarrow> string set" where
  "find_local_modules root =
     insert (dname root)
       (set (map (\<lambda>visit. dname (snd visit))
              (filter (\<lambda>visit. ''__init__.py'' \<in> set (filenames (snd visit)))
                 (os_walk (\<lambda>name. True) [] root))))"

text \<open>\<open>__init__\<close>; \<open>stdlib\<close> is what \<open>_get_std_lib_modules\<close> returns on the interpreter.\<close>

definition init_generator :: "string set \<Rightarrow> dir \<Rightarrow> generator" where
  "init_generator stdlib root =
     \<lparr>std_lib = stdlib, local_modules = find_local_modules root,
      final_requirements = [], unresolved_imports = {}, queries = []\<rparr>"

text \<open>The names one node adds to \<open>imports\<close> in \<open>_scan_python_files\<close>.\<close>

fun node_imports :: "node \<Rightarrow> string list" where
  "node_imports (Import names) = map first_segment names"
| "node_imports (ImportFrom module level) =
     (if level > 0 then []
      else (case module of
              None \<Rightarrow> []
            | Some m \<Rightarrow> if m = [] then [] else [first_segment m]))"
| "node_imports n = []"

text \<open>
  The \<open>try\<close> block for one file: \<open>open\<close>, \<open>read\<close> and \<open>ast.parse\<close> come before the first
  \<open>imports.add\<close>, and nothing after them raises, so a file adds all its names or none.
\<close>

fun file_imports :: "source \<Rightarrow> string list" where
  "file_imports (Unreadable e) = []"
| "file_imports (Text txt None) = []"
| "file_imports (Text txt (Some tree)) = concat (map node_imports (ast_walk tree))"

definition dir_imports :: "dir \<Rightarrow> string list" where
  "dir_imports d =
     concat (map (\<lambda>(filename, src). if endswith filename ''.py'' then file_imports src else [])
               (files d))"

text \<open>\<open>_scan_python_files\<close>: the names added to \<open>imports\<close>, in the order they are added.\<close>

definition scan_python_files :: "dir \<Rightarrow> string list" where
  "scan_python_files root =
     concat (map (\<lambda>visit. dir_imports (snd visit))
               (os_walk (\<lambda>name. name \<notin> exclude_dirs) [] root))"

text \<open>
  \<open>_scan_django_settings\<close>. An element that is a constant but not a string raises at
  \<open>element.value.split\<close>; the \<open>except\<close> clause then ends the scan of the file with the names
  found so far. The results carry a flag telling whether the exception was raised. Every
  string literal is an \<open>ast.Constant\<close> (Python 3.8 and later), so the \<open>elif\<close> branch for
  \<open>ast.Str\<close>, reached by the elements that are not constants, adds nothing.
\<close>

fun add_elements :: "expr list \<Rightarrow> string list \<Rightarrow> string list \<times> bool" where
  "add_elements [] found = (found, False)"
| "add_elements (Constant (Str s) # elts) found = add_elements elts (found @ [first_segment s])"
| "add_elements (Constant Non_str # elts) found = (found, True)"
| "add_elements (element # elts) found = add_elements elts found"

fun settings_target :: "expr \<Rightarrow> bool" where
  "settings_target (Name ident) \<longleftrightarrow> ident = ''INSTALLED_APPS'' \<or> ident = ''MIDDLEWARE''"
| "settings_target target \<longleftrightarrow> False"

fun sequence_elts :: "expr \<Rightarrow> expr list option" where
  "sequence_elts (List_expr elts) = Some elts"
| "sequence_elts (Tuple_expr elts) = Some elts"
| "sequence_elts v = None"

fun assign_targets :: "expr list \<Rightarrow> expr \<Rightarrow> string list \<Rightarrow> string list \<times> bool" where
  "assign_targets [] v found = (found, False)"
| "assign_targets (target # targets) v found =
     (if settings_target target then
        (case sequence_elts v of
           None \<Rightarrow> assign_targets targets v found
         | Some elts \<Rightarrow>
             (case add_elements elts found of
                (found', raised) \<Rightarrow>
                  if raised then (found', True) else assign_targets targets v found'))
      else assign_targets targets v found)"

fun settings_nodes :: "node list \<Rightarrow> string list \<Rightarrow> string list" where
  "settings_nodes [] found = found"
| "settings_nodes (Assign targets v # nodes) found =
     (case assign_targets targets v found of
        (found', raised) \<Rightarrow> if raised then found' else settings_nodes nodes found')"
| "settings_nodes (n # nodes) found = settings_nodes nodes found"

fun settings_file_modules :: "source \<Rightarrow> string list" where
  "settings_file_modules (Unreadable e) = []"
| "settings_file_modules (Text txt None) = []"
| "settings_file_modules (Text txt (Some tree)) = settings_nodes (ast_walk tree) []"

text \<open>
  \<open>os.listdir(os.path.dirname(dirpath))\<close> lists the parent of the visited directory; for the
  root itself that is the directory holding the project, whose listing is \<open>root_parent\<close>.
\<close>

definition is_settings_dir :: "string list \<Rightarrow> dir list \<times> dir \<Rightarrow> bool" where
  "is_settings_dir root_parent visit =
     (case visit of (ancestors, d) \<Rightarrow>
        ''settings.py'' \<in> set (filenames d) \<and>
        ''manage.py'' \<in> set (if ancestors = [] then root_parent else listdir (last ancestors)))"

definition scan_django_settings :: "string list \<Rightarrow> dir \<Rightarrow> string list" where
  "scan_django_settings root_parent root =
     (case find (is_settings_dir root_parent) (os_walk (\<lambda>name. True) [] root) of
        None \<Rightarrow> []
      | Some (ancestors, d) \<Rightarrow>
          (case map_of (files d) ''settings.py'' of
             None \<Rightarrow> []
           | Some src \<Rightarrow> settings_file_modules src))"

text \<open>
  \<open>run\<close>, and \<open>main\<close> up to the manifest: \<open>order\<close> is the order in which step 4 visits the
  known tools. Nothing in \<open>FirstEdition.py\<close> raises or calls \<open>sys.exit\<close>, so the process
  ends with status 0 after \<open>write_file\<close>. The narration printed on the way is not modelled.
\<close>

definition run :: "metadata_index \<Rightarrow> string list \<Rightarrow> string list \<Rightarrow> dir \<Rightarrow> generator \<Rightarrow> generator" where
  "run idx order root_parent root g =
     resolve_discovered idx order
       (scan_python_files root @ scan_django_settings root_parent root) g"

record outcome =
  exit_status :: nat
  manifest :: "string option"

definition main :: "metadata_index \<Rightarrow> string list \<Rightarrow> string set \<Rightarrow> string list \<Rightarrow> dir \<Rightarrow> outcome" where
  "main idx order stdlib root_parent root =
     (let generator = run idx order root_parent root (init_generator stdlib root)
      in \<lparr>exit_status = 0, manifest = Some (write_file (final_requirements generator))\<rparr>)"


section \<open>The inferential variant\<close>

text \<open>
  The lines \<open>GeminiWay.py\<close> prints as warnings and errors about the run, each with the
  value it interpolates; the progress lines and the notice about the virtual environment
  are not modelled.
\<close>

datatype message =
    Warning_could_not_read string string
  | Warning_empty_response
  | Warning_not_installed string
  | Error_gemini_api string
  | Error_value string
  | Please_set_api_key
  | Error_unexpected string

text \<open>
  The state of a \<open>GeminiRequirementsGenerator\<close>. A key of \<open>final_requirements\<close> is what
  \<open>dist.metadata['Name']\<close> returned, which the code does not test before using it.
\<close>

record gemini_generator =
  project_code :: string
  gemini_final_requirements :: "(string option \<times> string option) list"
  gemini_queries :: "string list"
  messages :: "message list"

definition join :: "string \<Rightarrow> string list \<Rightarrow> string" where
  "join sep parts = (case parts of [] \<Rightarrow> [] | p # ps \<Rightarrow> p @ concat (map (\<lambda>q. sep @ q) ps))"

definition exclude_files :: "string set" where
  "exclude_files = {''gemini_reqs.py'', ''requirements.txt''}"

text \<open>
  Paths, as \<open>os.path\<close> builds them on a POSIX system. \<open>root_dir\<close> is
  \<open>os.path.abspath(root_dir)\<close>; \<open>os.walk\<close> joins the name of each directory to the path of
  its parent, and \<open>os.path.relpath(file_path, root_dir)\<close> is the names below the root. A
  directory or file name never starts with a slash.
\<close>

definition path_join :: "string \<Rightarrow> string \<Rightarrow> string" where
  "path_join a b = (if a = [] \<or> last a = CHR ''/'' then a @ b else a @ ''/'' @ b)"

definition dirpath :: "string \<Rightarrow> dir list \<Rightarrow> dir \<Rightarrow> string" where
  "dirpath root_dir ancestors d = foldl path_join root_dir (map dname (tl (ancestors @ [d])))"

definition relative_path :: "dir list \<Rightarrow> dir \<Rightarrow> string \<Rightarrow> string" where
  "relative_path ancestors d filename =
     join ''/'' (map dname (tl (ancestors @ [d])) @ [filename])"

text \<open>
  \<open>_ingest_project_code\<close>, the loop: each file contributes its entry of \<open>code_files\<close> or a
  warning, which names \<open>file_path\<close> and the exception. A file that can be read counts
  whether or not it parses.
\<close>

definition ingest_file ::
  "string \<Rightarrow> dir list \<Rightarrow> dir \<Rightarrow> string \<times> source \<Rightarrow> string list \<times> message list" where
  "ingest_file root_dir ancestors d file =
     (case file of (filename, src) \<Rightarrow>
        if endswith filename ''.py'' \<and> filename \<notin> exclude_files then
          (case src of
             Unreadable e \<Rightarrow>
               ([], [Warning_could_not_read (path_join (dirpath root_dir ancestors d) filename) e])
           | Text txt parsed \<Rightarrow>
               ([''--- FILE: '' @ relative_path ancestors d filename @ '' ---'' @ newline @ newline @ txt],
                []))
        else ([], []))"

definition ingest_files :: "string \<Rightarrow> dir \<Rightarrow> (string list \<times> message list) list" where
  "ingest_files root_dir root =
     concat (map (\<lambda>(ancestors, d). map (ingest_file root_dir ancestors d) (files d))
               (os_walk (\<lambda>name. name \<notin> exclude_dirs) [] root))"

definition code_files :: "string \<Rightarrow> dir \<Rightarrow> string list" where
  "code_files root_dir root = concat (map fst (ingest_files root_dir root))"

definition ingest_warnings :: "string \<Rightarrow> dir \<Rightarrow> message list" where
  "ingest_warnings root_dir root = concat (map snd (ingest_files root_dir root))"

text \<open>\<open>_parse_and_resolve_versions\<close>.\<close>

definition potential_packages :: "string \<Rightarrow> string list" where
  "potential_packages gemini_output =
     map strip (filter (\<lambda>pkg. strip pkg \<noteq> []) (split_on CHR '','' (strip gemini_output)))"

definition resolve_package :: "metadata_index \<Rightarrow> string \<Rightarrow> gemini_generator \<Rightarrow> gemini_generator" where
  "resolve_package idx pkg_name g =
     (let corrected_name = dict_get GEMINI_IMPORT_TO_PYPI_MAP pkg_name pkg_name;
          g = g\<lparr>gemini_queries := gemini_queries g @ [corrected_name]\<rparr>
      in case idx corrected_name of
           None \<Rightarrow> g\<lparr>messages := messages g @ [Warning_not_installed pkg_name]\<rparr>
         | Some dist \<Rightarrow>
             (let pypi_name = dist_name dist; version = dist_version dist
              in if pypi_name \<notin> dict_keys (gemini_final_requirements g)
                 then g\<lparr>gemini_final_requirements :=
                          AList.update pypi_name version (gemini_final_requirements g)\<rparr>
                 else g))"

definition parse_and_resolve_versions ::
  "metadata_index \<Rightarrow> string \<Rightarrow> gemini_generator \<Rightarrow> gemini_generator" where
  "parse_and_resolve_versions idx gemini_output g =
     (if gemini_output = [] then g\<lparr>messages := messages g @ [Warning_empty_response]\<rparr>
      else fold (resolve_package idx) (sort (potential_packages gemini_output)) g)"

text \<open>
  \<open>write_file\<close> of \<open>GeminiWay.py\<close>. The header is written before \<open>sorted\<close> runs; the sort
  key \<open>item[0].lower()\<close> raises \<open>AttributeError\<close> on a key that is \<open>None\<close>, which leaves the
  file holding the header alone. The result is the file's content and whether that happened.
\<close>

definition gemini_header :: string where
  "gemini_header =
     ''# Generated by Gemini AI. Review for accuracy.'' @ newline @
     ''# This file lists the direct dependencies identified from the source code.'' @ newline @
     newline"

fun string_keys :: "(string option \<times> 'v) list \<Rightarrow> (string \<times> 'v) list option" where
  "string_keys [] = Some []"
| "string_keys ((None, v) # items) = None"
| "string_keys ((Some k, v) # items) = map_option (\<lambda>rest. (k, v) # rest) (string_keys items)"

definition gemini_requirement_line :: "string \<times> string option \<Rightarrow> string" where
  "gemini_requirement_line item =
     (case item of (package, version) \<Rightarrow> package @ ''=='' @ py_format version @ newline)"

definition gemini_write_file :: "(string option \<times> string option) list \<Rightarrow> string \<times> bool" where
  "gemini_write_file reqs =
     (case string_keys reqs of
        None \<Rightarrow> (gemini_header, True)
      | Some items \<Rightarrow>
          (gemini_header @
             concat (map gemini_requirement_line (sort_key (\<lambda>item. lower (fst item)) items)),
           False))"

text \<open>
  \<open>main\<close> with \<open>__init__\<close> and \<open>run\<close> inlined. \<open>api_key\<close> is \<open>os.getenv('GOOGLE_API_KEY')\<close>,
  \<open>root_dir\<close> the absolute path of the working directory, whose content is \<open>root\<close>.
  The service is a function of the ingested code, the one varying part of the prompt, and
  returns the text of the response or the text of the exception it raised; configuring the
  client is taken to succeed. Falling off the end of \<open>main\<close> is exit status 0,
  \<open>sys.exit(1)\<close> is exit status 1.
\<close>

definition attribute_error_text :: string where
  "attribute_error_text =
     [CHR 0x27] @ ''NoneType'' @ [CHR 0x27] @ '' object has no attribute '' @
     [CHR 0x27] @ ''lower'' @ [CHR 0x27]"

record gemini_outcome = outcome +
  printed :: "message list"

definition gemini_main ::
  "string option \<Rightarrow> (string \<Rightarrow> string + string) \<Rightarrow> metadata_index \<Rightarrow> string \<Rightarrow> dir \<Rightarrow>
   gemini_outcome" where
  "gemini_main api_key service idx root_dir root =
     (if \<not> truthy api_key then
        \<lparr>exit_status = 1, manifest = None,
         printed = [Error_value ''GOOGLE_API_KEY environment variable not set.'',
                    Please_set_api_key]\<rparr>
      else if code_files root_dir root = [] then
        \<lparr>exit_status = 1, manifest = None,
         printed = ingest_warnings root_dir root @
                   [Error_unexpected ''No Python source files found to analyze.'']\<rparr>
      else
        (let g = \<lparr>project_code = join (newline @ newline) (code_files root_dir root),
                  gemini_final_requirements = [], gemini_queries = [],
                  messages = ingest_warnings root_dir root\<rparr>
         in case service (project_code g) of
              Inl e \<Rightarrow>
                \<lparr>exit_status = 1, manifest = None, printed = messages g @ [Error_gemini_api e]\<rparr>
            | Inr gemini_response \<Rightarrow>
                (let g = parse_and_resolve_versions idx gemini_response g;
                     (written, raised) = gemini_write_file (gemini_final_requirements g)
                 in if raised then
                      \<lparr>exit_status = 1, manifest = Some written,
                       printed = messages g @
                                 [Error_unexpected attribute_error_text]\<rparr>
                    else \<lparr>exit_status = 0, manifest = Some written, printed = messages g\<rparr>)))"


section \<open>Vocabulary of the properties\<close>

text \<open>
  The nodes of a syntax tree and the directories of a project tree, stated without reference
  to a traversal order: a tree's nodes are the root and the children of its nodes; the
  directories a walk reaches are the root and those subdirectories of reached directories
  whose names the walk keeps.
\<close>

inductive_set nodes_of :: "node \<Rightarrow> node set" for tree :: node where
  root: "tree \<in> nodes_of tree"
| child: "n \<in> nodes_of tree \<Longrightarrow> c \<in> set (iter_child_nodes n) \<Longrightarrow> c \<in> nodes_of tree"

inductive_set walked :: "(string \<Rightarrow> bool) \<Rightarrow> dir \<Rightarrow> dir set"
  for keep :: "string \<Rightarrow> bool" and root :: dir where
  top: "root \<in> walked keep root"
| sub: "d \<in> walked keep root \<Longrightarrow> s \<in> set (subdirs d) \<Longrightarrow> keep (dname s) \<Longrightarrow> s \<in> walked keep root"

text \<open>
  Two listings of one project: the same directory name, the same files and the same
  subdirectories, each in any order, the subdirectories again being two listings of one
  project.
\<close>

inductive same_project :: "dir \<Rightarrow> dir \<Rightarrow> bool" where
  listing: "mset fs = mset fs' \<Longrightarrow> mset subs'' = mset subs' \<Longrightarrow> list_all2 same_project subs subs'' \<Longrightarrow>
    same_project (Dir name fs subs) (Dir name fs' subs')"

text \<open>
  An index reports the known tools under their own names when a lookup of a tool either
  fails, or reports no name, or reports the name that was looked up.
\<close>

definition tools_report_own_name :: "metadata_index \<Rightarrow> bool" where
  "tools_report_own_name idx \<longleftrightarrow>
     (\<forall>tool \<in> set KNOWN_CLI_AND_CONFIG_TOOLS. \<forall>d. idx tool = Some d \<longrightarrow>
        dist_name d = None \<or> dist_name d = Some [] \<or> dist_name d = Some tool)"

text \<open>What step 4 appends for a tool, when the index reports tools under their own names.\<close>

definition tool_version :: "metadata_index \<Rightarrow> string \<Rightarrow> string option" where
  "tool_version idx tool = (case idx tool of None \<Rightarrow> None | Some d \<Rightarrow> dist_version d)"

definition tool_installed :: "metadata_index \<Rightarrow> string \<Rightarrow> bool" where
  "tool_installed idx tool \<longleftrightarrow>
     (case idx tool of None \<Rightarrow> False | Some d \<Rightarrow> truthy (dist_name d))"


section \<open>Example inputs\<close>

text \<open>
  Concrete inputs on which the properties below are exercised. The text of a file is
  immaterial to the syntactic variant and is left empty where only that variant reads it.
\<close>

text \<open>An index with three installed distributions, and a generator before \<open>run\<close>.\<close>

definition example_index :: metadata_index where
  "example_index =
     map_of
       [(''requests'', \<lparr>dist_version = Some ''2.31.0'', dist_name = Some ''requests''\<rparr>),
        (''beautifulsoup4'', \<lparr>dist_version = Some ''4.12.0'', dist_name = Some ''beautifulsoup4''\<rparr>),
        (''pytest'', \<lparr>dist_version = Some ''8.0.0'', dist_name = Some ''pytest''\<rparr>)]"

definition example_generator :: generator where
  "example_generator =
     \<lparr>std_lib = {''os'', ''sys''}, local_modules = {''myapp''},
      final_requirements = [], unresolved_imports = {}, queries = []\<rparr>"

definition example_gemini_generator :: gemini_generator where
  "example_gemini_generator =
     \<lparr>project_code = [], gemini_final_requirements = [], gemini_queries = [], messages = []\<rparr>"

text \<open>A project with one source file, and a project with no file at all.\<close>

definition one_file_project :: dir where
  "one_file_project =
     Dir ''proj''
       [(''app.py'', Text ''import requests'' (Some (Node [Import [''requests'']])))]
       []"

definition empty_project :: dir where
  "empty_project = Dir ''proj'' [] []"

definition empty_response_service :: "string \<Rightarrow> string + string" where
  "empty_response_service prompt = Inr []"

text \<open>
  An index in which the distribution \<open>foo\<close> is installed with metadata that has a name
  but no version, and a service that names \<open>foo\<close>.
\<close>

definition versionless_index :: metadata_index where
  "versionless_index = map_of [(''foo'', \<lparr>dist_version = None, dist_name = Some ''foo''\<rparr>)]"

definition foo_service :: "string \<Rightarrow> string + string" where
  "foo_service prompt = Inr ''foo''"

text \<open>
  A project whose virtual environment holds a package directory \<open>requests\<close>, and whose
  one source file imports \<open>requests\<close>.
\<close>

definition venv_project :: dir where
  "venv_project =
     Dir ''proj''
       [(''app.py'', Text ''import requests'' (Some (Node [Import [''requests'']])))]
       [Dir ''.venv'' []
          [Dir ''lib'' []
             [Dir ''requests'' [(''__init__.py'', Text [] (Some (Node [])))] []]]]"

definition example_module :: node where
  "example_module =
     Node [Import [''os.path'', ''requests''],
           ImportFrom (Some ''bs4.element'') 0,
           ImportFrom (Some ''utils'') 1,
           ImportFrom None 1,
           Node [Import [''yaml'']]]"

text \<open>
  A project with a local package \<open>pytest\<close> whose source file imports it; an index whose
  lookup keys differ from the names it reports and in which two lookups report the name
  \<open>PyYAML\<close> with different versions.
\<close>

definition local_pytest_project :: dir where
  "local_pytest_project =
     Dir ''proj''
       [(''app.py'', Text ''import pytest'' (Some (Node [Import [''pytest'']])))]
       [Dir ''pytest'' [(''__init__.py'', Text [] (Some (Node [])))] []]"

definition yaml_index :: metadata_index where
  "yaml_index =
     map_of
       [(''pyyaml'', \<lparr>dist_version = Some ''6.0'', dist_name = Some ''PyYAML''\<rparr>),
        (''PyYAML'', \<lparr>dist_version = Some ''5.4'', dist_name = Some ''PyYAML''\<rparr>)]"

text \<open>An index in which a distribution named like the local package \<open>myapp\<close> is installed.\<close>

definition collision_index :: metadata_index where
  "collision_index =
     map_of
       [(''myapp'', \<lparr>dist_version = Some ''0.1'', dist_name = Some ''myapp''\<rparr>),
        (''requests'', \<lparr>dist_version = Some ''2.31.0'', dist_name = Some ''requests''\<rparr>)]"

text \<open>
  A Django project with two settings modules, in two listings; an index in which the
  lookups of two tools report one name with different versions.
\<close>

definition shop_settings :: dir where
  "shop_settings =
     Dir ''shop''
       [(''settings.py'',
         Text [] (Some (Node [Assign [Name ''INSTALLED_APPS''] (List_expr [Constant (Str ''requests'')])])))]
       []"

definition blog_settings :: dir where
  "blog_settings =
     Dir ''blog''
       [(''settings.py'',
         Text [] (Some (Node [Assign [Name ''INSTALLED_APPS''] (List_expr [Constant (Str ''bs4.apps'')])])))]
       []"

definition two_settings_project :: dir where
  "two_settings_project =
     Dir ''proj'' [(''manage.py'', Text [] (Some (Node [Import [''os'', ''sys'']])))]
       [shop_settings, blog_settings]"

definition two_settings_project_relisted :: dir where
  "two_settings_project_relisted =
     Dir ''proj'' [(''manage.py'', Text [] (Some (Node [Import [''os'', ''sys'']])))]
       [blog_settings, shop_settings]"

definition clash_index :: metadata_index where
  "clash_index =
     map_of
       [(''black'', \<lparr>dist_version = Some ''1.0'', dist_name = Some ''shared''\<rparr>),
        (''isort'', \<lparr>dist_version = Some ''2.0'', dist_name = Some ''shared''\<rparr>)]"

text \<open>A Django project with one settings module, in two listings.\<close>

definition one_settings_project :: dir where
  "one_settings_project =
     Dir ''proj''
       [(''manage.py'', Text [] (Some (Node [Import [''os'', ''sys'']]))),
        (''app.py'', Text [] (Some (Node [Import [''bs4'']])))]
       [shop_settings, Dir ''docs'' [] []]"

definition one_settings_project_relisted :: dir where
  "one_settings_project_relisted =
     Dir ''proj''
       [(''app.py'', Text [] (Some (Node [Import [''bs4'']]))),
        (''manage.py'', Text [] (Some (Node [Import [''os'', ''sys'']])))]
       [Dir ''docs'' [] [], shop_settings]"


text \<open>
  An index in which both the import name \<open>bs4\<close> and the distribution the static map gives
  for it are installed, as two distributions.
\<close>

definition decoy_index :: metadata_index where
  "decoy_index =
     map_of
       [(''bs4'', \<lparr>dist_version = Some ''0.0.2'', dist_name = Some ''bs4''\<rparr>),
        (''beautifulsoup4'', \<lparr>dist_version = Some ''4.12.0'', dist_name = Some ''beautifulsoup4''\<rparr>)]"

text \<open>
  A project whose source file imports \<open>aaa\<close> and \<open>bbb\<close>, and an index in which the lookups
  of \<open>aaa\<close>, of \<open>bbb\<close> and of the tool \<open>black\<close> find three distributions whose metadata
  all give the name \<open>shared\<close>, with three versions.
\<close>

definition shared_name_project :: dir where
  "shared_name_project =
     Dir ''proj''
       [(''app.py'', Text ''import aaa, bbb'' (Some (Node [Import [''aaa'', ''bbb'']])))]
       []"

definition shared_name_index :: metadata_index where
  "shared_name_index =
     map_of
       [(''aaa'', \<lparr>dist_version = Some ''1.0'', dist_name = Some ''shared''\<rparr>),
        (''bbb'', \<lparr>dist_version = Some ''2.0'', dist_name = Some ''shared''\<rparr>),
        (''black'', \<lparr>dist_version = Some ''3.0'', dist_name = Some ''shared''\<rparr>)]"


text \<open>A project with a file that cannot be read, in a package directory.\<close>

definition unreadable_project :: dir where
  "unreadable_project =
     Dir ''proj''
       [(''app.py'', Text ''import requests'' (Some (Node [Import [''requests'']])))]
       [Dir ''pkg'' [(''bad.py'', Unreadable ''Permission denied'')] []]"


section \<open>Characters beyond ASCII\<close>

lemma strip_no_break_space: "strip ([CHR 0xA0] @ ''bs4'' @ [CHR 0x85, CHR 0x20]) = ''bs4''"
  by code_simp

lemma lower_latin_capitals:
  "lower [CHR 0xC0, CHR 0xD7, CHR 0xDE, CHR ''Q'', CHR ''q''] =
     [CHR 0xE0, CHR 0xD7, CHR 0xFE, CHR ''q'', CHR ''q'']"
  by code_simp


section \<open>The static name map\<close>

lemma import_map_keys_distinct: "distinct (map fst IMPORT_TO_PYPI_MAP)"
  by (simp add: IMPORT_TO_PYPI_MAP_def)

lemma gemini_map_keys_distinct: "distinct (map fst GEMINI_IMPORT_TO_PYPI_MAP)"
  by (simp add: GEMINI_IMPORT_TO_PYPI_MAP_def)

lemma import_map_no_fixed_point: "(k, v) \<in> set IMPORT_TO_PYPI_MAP \<Longrightarrow> v \<noteq> k"
  by (auto simp add: IMPORT_TO_PYPI_MAP_def)

lemma gemini_map_no_fixed_point: "(k, v) \<in> set GEMINI_IMPORT_TO_PYPI_MAP \<Longrightarrow> v \<noteq> k"
  by (auto simp add: GEMINI_IMPORT_TO_PYPI_MAP_def)

lemma dict_get_present:
  "distinct (map fst d) \<Longrightarrow> (k, v) \<in> set d \<Longrightarrow> dict_get d k dflt = v"
  by (simp add: dict_get_def)

lemma dict_get_absent:
  assumes "k \<notin> fst ` set d"
  shows "dict_get d k dflt = dflt"
proof -
  have "map_of d k = None"
    using assms by (simp add: map_of_eq_None_iff)
  then show ?thesis
    by (simp add: dict_get_def)
qed

lemma queries_resolve_import:
  "queries (resolve_import idx imp g) = queries g @ [dict_get IMPORT_TO_PYPI_MAP imp imp]"
  by (simp add: resolve_import_def Let_def split: prod.splits option.splits)

lemma queries_resolve_imports:
  "queries (resolve_imports idx imps g) =
     queries g @ map (\<lambda>imp. dict_get IMPORT_TO_PYPI_MAP imp imp) imps"
  unfolding resolve_imports_def
  by (induction imps arbitrary: g) (simp_all add: queries_resolve_import)

lemma queries_resolve_package:
  "gemini_queries (resolve_package idx pkg g) =
     gemini_queries g @ [dict_get GEMINI_IMPORT_TO_PYPI_MAP pkg pkg]"
  by (simp add: resolve_package_def Let_def split: prod.splits option.splits)

lemma queries_resolve_packages:
  "gemini_queries (fold (resolve_package idx) pkgs g) =
     gemini_queries g @ map (\<lambda>pkg. dict_get GEMINI_IMPORT_TO_PYPI_MAP pkg pkg) pkgs"
  by (induction pkgs arbitrary: g) (simp_all add: queries_resolve_package)

lemma potential_packages_empty: "potential_packages [] = []"
  by (simp add: potential_packages_def strip_def)

lemma queries_parse_and_resolve_versions:
  "gemini_queries (parse_and_resolve_versions idx gemini_output g) =
     gemini_queries g @
     map (\<lambda>pkg. dict_get GEMINI_IMPORT_TO_PYPI_MAP pkg pkg) (sort (potential_packages gemini_output))"
  by (simp add: parse_and_resolve_versions_def queries_resolve_packages potential_packages_empty)


section \<open>The filter\<close>

lemma external_imports_iff:
  "imp \<in> external_imports g discovered \<longleftrightarrow>
     imp \<in> set discovered \<and> imp \<noteq> [] \<and> imp \<notin> std_lib g \<and> imp \<notin> local_modules g"
  by (auto simp add: external_imports_def keep_import_def)

lemma finite_external_imports: "finite (external_imports g discovered)"
  by (simp add: external_imports_def)

text \<open>
  C6. The filter keeps a name exactly when it is non-empty and in neither exclusion set; what
  the comprehension of step 2 yields is the discovered names that pass this test, whatever
  the order in which it visits them; and the candidates step 3 then processes are these names.
  The filter is a function of the name and the two sets alone and returns only its verdict.
\<close>

theorem filter_contract:
  "(keep_import std local imp \<longleftrightarrow> imp \<noteq> [] \<and> imp \<notin> std \<and> imp \<notin> local)
   \<and> (imp \<in> external_imports g discovered \<longleftrightarrow>
        imp \<in> set discovered \<and> keep_import (std_lib g) (local_modules g) imp)
   \<and> (set discovered = set discovered' \<longrightarrow>
        external_imports g discovered = external_imports g discovered')
   \<and> set (sorted_list_of_set (external_imports g discovered)) =
        {imp \<in> set discovered. imp \<noteq> [] \<and> imp \<notin> std_lib g \<and> imp \<notin> local_modules g}"
proof (intro conjI impI)
  show "keep_import std local imp \<longleftrightarrow> imp \<noteq> [] \<and> imp \<notin> std \<and> imp \<notin> local"
    by (simp add: keep_import_def)
  show "imp \<in> external_imports g discovered \<longleftrightarrow>
          imp \<in> set discovered \<and> keep_import (std_lib g) (local_modules g) imp"
    by (simp add: external_imports_iff keep_import_def)
  show "external_imports g discovered = external_imports g discovered'"
    if "set discovered = set discovered'"
    using that by (auto simp add: external_imports_iff)
  show "set (sorted_list_of_set (external_imports g discovered)) =
          {imp \<in> set discovered. imp \<noteq> [] \<and> imp \<notin> std_lib g \<and> imp \<notin> local_modules g}"
    by (auto simp add: finite_external_imports external_imports_iff)
qed

theorem filter_contract_witness:
  "external_imports example_generator [''os'', ''requests'', ''myapp'', [], ''bs4''] =
     {''requests'', ''bs4''}
   \<and> external_imports example_generator [''bs4'', [], ''myapp'', ''requests'', ''os''] =
     external_imports example_generator [''os'', ''requests'', ''myapp'', [], ''bs4'']
   \<and> keep_import {''os'', ''sys''} {''myapp''} ''requests''"
proof -
  have same: "set [''os'', ''requests'', ''myapp'', [], ''bs4''] =
              set [''bs4'', [], ''myapp'', ''requests'', ''os'']"
    by auto
  have kept: "external_imports example_generator [''os'', ''requests'', ''myapp'', [], ''bs4''] =
              {''requests'', ''bs4''}"
    by (auto simp add: external_imports_iff example_generator_def)
  from filter_contract
    [of "{''os'', ''sys''}" "{''myapp''}" "''requests''" example_generator
      "[''os'', ''requests'', ''myapp'', [], ''bs4'']" "[''bs4'', [], ''myapp'', ''requests'', ''os'']"]
  show ?thesis
    using same kept by simp
qed


section \<open>Run-level outcomes\<close>

lemma gemini_write_file_empty: "gemini_write_file [] = (gemini_header, False)"
  by (simp add: gemini_write_file_def)

text \<open>
  C9. In the inferential variant, when the key is set, some source file was ingested and the
  service answers with the empty string, the run prints the empty-response warning after
  the warnings of the ingestion, writes a manifest that holds the header and no requirement
  line, and ends with exit status 0. On the empty string the resolution step looks nothing
  up and records nothing: it only prints the warning.
\<close>

theorem empty_response_is_not_an_error:
  assumes "truthy api_key"
    and "code_files root_dir root \<noteq> []"
    and "service (join (newline @ newline) (code_files root_dir root)) = Inr []"
  shows "gemini_main api_key service idx root_dir root =
           \<lparr>exit_status = 0, manifest = Some gemini_header,
            printed = ingest_warnings root_dir root @ [Warning_empty_response]\<rparr>
         \<and> parse_and_resolve_versions idx [] g =
           g\<lparr>messages := messages g @ [Warning_empty_response]\<rparr>"
  using assms
  by (simp add: gemini_main_def parse_and_resolve_versions_def gemini_write_file_empty)

theorem empty_response_is_not_an_error_witness:
  "gemini_main (Some ''key'') empty_response_service example_index ''/home/dev/proj''
      one_file_project =
     \<lparr>exit_status = 0, manifest = Some gemini_header, printed = [Warning_empty_response]\<rparr>
   \<and> parse_and_resolve_versions example_index [] example_gemini_generator =
     \<lparr>project_code = [], gemini_final_requirements = [], gemini_queries = [],
      messages = [Warning_empty_response]\<rparr>"
proof -
  have files: "code_files ''/home/dev/proj'' one_file_project \<noteq> []"
    by (simp add: code_files_def ingest_files_def ingest_file_def one_file_project_def
        endswith_def exclude_files_def)
  have warnings: "ingest_warnings ''/home/dev/proj'' one_file_project = []"
    by (simp add: ingest_warnings_def ingest_files_def ingest_file_def one_file_project_def
        endswith_def exclude_files_def)
  have key: "truthy (Some ''key'')"
    by simp
  have answer: "empty_response_service
      (join (newline @ newline) (code_files ''/home/dev/proj'' one_file_project)) = Inr []"
    by (simp add: empty_response_service_def)
  from empty_response_is_not_an_error
    [where api_key = "Some ''key''" and root = one_file_project
       and root_dir = "''/home/dev/proj''"
       and service = empty_response_service and idx = example_index
       and g = example_gemini_generator]
  show ?thesis
    using key files answer by (simp add: warnings example_gemini_generator_def)
qed

text \<open>
  C3, as the code has it. The inferential variant aborts a run that ingested no source file:
  exit status 1, no manifest, and the error as the last printed line (when the key is
  missing the run has aborted before, in the same way). The syntactic variant has no such
  check: whatever the project holds, it writes the manifest and ends with exit status 0.
\<close>

theorem no_source_files_abort_inferential_only:
  "(code_files root_dir root = [] \<longrightarrow>
      exit_status (gemini_main api_key service idx root_dir root) = 1
      \<and> manifest (gemini_main api_key service idx root_dir root) = None
      \<and> printed (gemini_main api_key service idx root_dir root) =
          (if truthy api_key
           then ingest_warnings root_dir root @
                [Error_unexpected ''No Python source files found to analyze.'']
           else [Error_value ''GOOGLE_API_KEY environment variable not set.'',
                 Please_set_api_key]))
   \<and> exit_status (main idx order stdlib root_parent root) = 0
   \<and> manifest (main idx order stdlib root_parent root) =
       Some (write_file (final_requirements
         (run idx order root_parent root (init_generator stdlib root))))"
  by (simp add: gemini_main_def main_def Let_def)

theorem no_source_files_abort_inferential_only_witness:
  "exit_status (gemini_main (Some ''key'') empty_response_service example_index
      ''/home/dev/proj'' empty_project) = 1
   \<and> manifest (gemini_main (Some ''key'') empty_response_service example_index
      ''/home/dev/proj'' empty_project) = None
   \<and> printed (gemini_main (Some ''key'') empty_response_service example_index
      ''/home/dev/proj'' empty_project) =
       [Error_unexpected ''No Python source files found to analyze.'']"
proof -
  have files: "code_files ''/home/dev/proj'' empty_project = []"
    by (simp add: code_files_def ingest_files_def empty_project_def)
  have warnings: "ingest_warnings ''/home/dev/proj'' empty_project = []"
    by (simp add: ingest_warnings_def ingest_files_def empty_project_def)
  from no_source_files_abort_inferential_only
    [of "''/home/dev/proj''" empty_project "Some ''key''" empty_response_service example_index]
  show ?thesis
    by (simp add: files warnings)
qed

text \<open>
  C3 as stated fails of the syntactic variant: on a project with no file at all, in an
  environment where \<open>pytest\<close> is installed, the run completes with exit status 0 and
  writes a manifest that lists the tool.
\<close>

theorem syntactic_variant_no_source_files:
  "scan_python_files empty_project = []
   \<and> main example_index KNOWN_CLI_AND_CONFIG_TOOLS {''os'', ''sys''} [] empty_project =
     \<lparr>exit_status = 0,
      manifest = Some (first_edition_header @ ''pytest==8.0.0'' @ newline)\<rparr>"
  by code_simp


text \<open>
  The warning for a file that cannot be read names its path under \<open>root_dir\<close> and the
  exception; the file that can be read is ingested under its path relative to the root.
\<close>

lemma ingest_unreadable_file:
  "ingest_warnings ''/home/dev/proj'' unreadable_project =
     [Warning_could_not_read ''/home/dev/proj/pkg/bad.py'' ''Permission denied'']
   \<and> code_files ''/home/dev/proj'' unreadable_project =
     [''--- FILE: app.py ---'' @ newline @ newline @ ''import requests'']"
  by code_simp


section \<open>The manifest writers\<close>

lemma requirement_line_cases:
  "requirement_line (package, Some v) =
     (if v = [] then package @ newline else package @ ''=='' @ v @ newline)"
  "requirement_line (package, None) = package @ newline"
  by (simp_all add: requirement_line_def)

text \<open>
  The writer of the syntactic variant: the header, then one line per entry of the mapping,
  the entries being those of the mapping, sorted by lower-cased name, entries whose names
  agree up to case staying in insertion order; a line is \<open>name==version\<close> when the version
  is a non-empty string and the bare name otherwise.
\<close>

lemma write_file_contract:
  "write_file reqs =
     first_edition_header @ concat (map requirement_line (sort_key (\<lambda>item. lower (fst item)) reqs))
   \<and> mset (sort_key (\<lambda>item. lower (fst item)) reqs) = mset reqs
   \<and> sorted (map (\<lambda>item. lower (fst item)) (sort_key (\<lambda>item. lower (fst item)) reqs))
   \<and> filter (\<lambda>item. lower (fst item) = k) (sort_key (\<lambda>item. lower (fst item)) reqs) =
       filter (\<lambda>item. lower (fst item) = k) reqs
   \<and> requirement_line (package, None) = package @ newline
   \<and> requirement_line (package, Some []) = package @ newline
   \<and> (requirement_line (package, Some (c # cs)) = package @ ''=='' @ c # cs @ newline)"
  by (simp add: write_file_def requirement_line_def sort_key_stable)

text \<open>
  C5 holds of \<open>write_file\<close> in \<open>FirstEdition.py\<close> and fails of \<open>write_file\<close> in
  \<open>GeminiWay.py\<close>, which formats every line as \<open>name==version\<close>: for a distribution whose
  metadata has no version the first writes the bare name, the second \<open>foo==None\<close>. The
  last conjunct is a whole run of the inferential variant reaching that line.
\<close>

theorem gemini_writer_formats_absent_version:
  "write_file [(''foo'', None)] = first_edition_header @ ''foo'' @ newline
   \<and> gemini_write_file [(Some ''foo'', None)] = (gemini_header @ ''foo==None'' @ newline, False)
   \<and> gemini_main (Some ''key'') foo_service versionless_index ''/home/dev/proj''
        one_file_project =
       \<lparr>exit_status = 0, manifest = Some (gemini_header @ ''foo==None'' @ newline), printed = []\<rparr>"
  by code_simp


section \<open>Traversals\<close>

lemma nodes_of_descend:
  assumes "x \<in> nodes_of c" and "c \<in> set (iter_child_nodes n)"
  shows "x \<in> nodes_of n"
  using assms(1)
proof (induction rule: nodes_of.induct)
  case root
  show ?case
    using nodes_of.root assms(2) by (rule nodes_of.child)
next
  case (child m c')
  then show ?case
    by (blast intro: nodes_of.child)
qed

lemma nodes_of_unfold:
  "nodes_of n = insert n (\<Union>c \<in> set (iter_child_nodes n). nodes_of c)"
proof (intro set_eqI iffI)
  fix x
  assume "x \<in> nodes_of n"
  then show "x \<in> insert n (\<Union>c \<in> set (iter_child_nodes n). nodes_of c)"
  proof (induction rule: nodes_of.induct)
    case root
    show ?case by simp
  next
    case (child m c)
    from child.IH show ?case
    proof
      assume "m = n"
      with child.hyps(2) show ?thesis
        by (auto intro: nodes_of.root)
    next
      assume "m \<in> (\<Union>c \<in> set (iter_child_nodes n). nodes_of c)"
      then obtain c0 where "c0 \<in> set (iter_child_nodes n)" and "m \<in> nodes_of c0"
        by blast
      with child.hyps(2) show ?thesis
        by (auto intro: nodes_of.child)
    qed
  qed
next
  fix x
  assume "x \<in> insert n (\<Union>c \<in> set (iter_child_nodes n). nodes_of c)"
  then show "x \<in> nodes_of n"
    by (auto intro: nodes_of.root nodes_of_descend)
qed

lemma set_ast_walk_queue: "set (ast_walk_queue todo) = (\<Union>n \<in> set todo. nodes_of n)"
proof (induction todo rule: ast_walk_queue.induct)
  case 1
  show ?case by simp
next
  case (2 n todo)
  have "set (ast_walk_queue (n # todo)) =
          insert n (\<Union>m \<in> set (todo @ iter_child_nodes n). nodes_of m)"
    using 2 by simp
  also have "\<dots> = nodes_of n \<union> (\<Union>m \<in> set todo. nodes_of m)"
    by (subst (2) nodes_of_unfold) auto
  finally show ?case
    by simp
qed

lemma set_ast_walk: "set (ast_walk tree) = nodes_of tree"
  by (simp add: ast_walk_def set_ast_walk_queue nodes_of_unfold [symmetric])

lemma walked_descend:
  assumes "x \<in> walked keep s" and "s \<in> set (subdirs d)" and "keep (dname s)"
  shows "x \<in> walked keep d"
  using assms(1)
proof (induction rule: walked.induct)
  case top
  show ?case
    using walked.top assms(2,3) by (rule walked.sub)
next
  case (sub e s')
  then show ?case
    by (blast intro: walked.sub)
qed

lemma walked_unfold:
  "walked keep d =
     insert d (\<Union>s \<in> set (filter (\<lambda>sub. keep (dname sub)) (subdirs d)). walked keep s)"
proof (intro set_eqI iffI)
  fix x
  assume "x \<in> walked keep d"
  then show "x \<in> insert d (\<Union>s \<in> set (filter (\<lambda>sub. keep (dname sub)) (subdirs d)). walked keep s)"
  proof (induction rule: walked.induct)
    case top
    show ?case by simp
  next
    case (sub e s)
    from sub.IH show ?case
    proof
      assume "e = d"
      with sub.hyps(2,3) show ?thesis
        by (auto intro: walked.top)
    next
      assume "e \<in> (\<Union>s \<in> set (filter (\<lambda>sub. keep (dname sub)) (subdirs d)). walked keep s)"
      then obtain s0 where "s0 \<in> set (filter (\<lambda>sub. keep (dname sub)) (subdirs d))"
        and "e \<in> walked keep s0"
        by blast
      with sub.hyps(2,3) show ?thesis
        by (auto intro: walked.sub)
    qed
  qed
next
  fix x
  assume "x \<in> insert d (\<Union>s \<in> set (filter (\<lambda>sub. keep (dname sub)) (subdirs d)). walked keep s)"
  then show "x \<in> walked keep d"
    by (auto intro: walked.top walked_descend)
qed

lemma set_os_walk: "snd ` set (os_walk keep ancestors d) = walked keep d"
proof (induction keep ancestors d rule: os_walk.induct)
  case (1 keep ancestors name fs subs)
  have "snd ` set (os_walk keep ancestors (Dir name fs subs)) =
          insert (Dir name fs subs)
            (\<Union>s \<in> set (filter (\<lambda>sub. keep (dname sub)) subs).
               snd ` set (os_walk keep (ancestors @ [Dir name fs subs]) s))"
    by (simp add: image_UN)
  also have "\<dots> = insert (Dir name fs subs)
            (\<Union>s \<in> set (filter (\<lambda>sub. keep (dname sub)) subs). walked keep s)"
    using 1 by simp
  also have "\<dots> = walked keep (Dir name fs subs)"
    by (subst (2) walked_unfold) simp
  finally show ?case .
qed

section \<open>The syntactic import extractor\<close>

lemma split_on_head: "\<exists>ws. split_on sep s = takeWhile (\<lambda>c. c \<noteq> sep) s # ws"
  by (induction s) auto

lemma first_segment_takeWhile: "first_segment s = takeWhile (\<lambda>c. c \<noteq> CHR ''.'') s"
proof -
  obtain ws where "split_on CHR ''.'' s = takeWhile (\<lambda>c. c \<noteq> CHR ''.'') s # ws"
    using split_on_head by blast
  then show ?thesis
    by (simp add: first_segment_def)
qed

lemma node_imports_iff:
  "c \<in> set (node_imports n) \<longleftrightarrow>
     (\<exists>names name. n = Import names \<and> name \<in> set names \<and> c = first_segment name)
     \<or> (\<exists>m. n = ImportFrom (Some m) 0 \<and> m \<noteq> [] \<and> c = first_segment m)"
  by (cases n) (auto split: option.splits)

lemma file_imports_iff:
  "c \<in> set (file_imports (Text content (Some tree))) \<longleftrightarrow>
     (\<exists>names name. Import names \<in> nodes_of tree \<and> name \<in> set names \<and> c = first_segment name)
     \<or> (\<exists>m. ImportFrom (Some m) 0 \<in> nodes_of tree \<and> m \<noteq> [] \<and> c = first_segment m)"
proof -
  have "c \<in> set (file_imports (Text content (Some tree))) \<longleftrightarrow>
          (\<exists>n \<in> nodes_of tree. c \<in> set (node_imports n))"
    by (simp add: set_ast_walk)
  also have "\<dots> \<longleftrightarrow>
     (\<exists>names name. Import names \<in> nodes_of tree \<and> name \<in> set names \<and> c = first_segment name)
     \<or> (\<exists>m. ImportFrom (Some m) 0 \<in> nodes_of tree \<and> m \<noteq> [] \<and> c = first_segment m)"
    unfolding node_imports_iff by blast
  finally show ?thesis .
qed

lemma scan_python_files_iff:
  "c \<in> set (scan_python_files root) \<longleftrightarrow>
     (\<exists>d filename src. d \<in> walked (\<lambda>name. name \<notin> exclude_dirs) root
        \<and> (filename, src) \<in> set (files d) \<and> endswith filename ''.py''
        \<and> c \<in> set (file_imports src))"
proof -
  have "c \<in> set (scan_python_files root) \<longleftrightarrow>
          (\<exists>d \<in> snd ` set (os_walk (\<lambda>name. name \<notin> exclude_dirs) [] root). c \<in> set (dir_imports d))"
    by (simp add: scan_python_files_def)
  also have "\<dots> \<longleftrightarrow> (\<exists>d \<in> walked (\<lambda>name. name \<notin> exclude_dirs) root. c \<in> set (dir_imports d))"
    by (simp only: set_os_walk)
  also have "\<dots> \<longleftrightarrow>
     (\<exists>d filename src. d \<in> walked (\<lambda>name. name \<notin> exclude_dirs) root
        \<and> (filename, src) \<in> set (files d) \<and> endswith filename ''.py''
        \<and> c \<in> set (file_imports src))"
    by (auto simp add: dir_imports_def split: if_splits)
  finally show ?thesis .
qed

text \<open>
  C8. For a file that parses, the names the extractor collects are exactly the first dotted
  segments of the names in the tree's \<open>import\<close> statements and of the modules of its
  \<open>from\<close>-imports of level 0; a \<open>from\<close>-import of a higher level adds nothing, nor does a
  file that cannot be read or parsed. The scan collects these names from the files named
  \<open>*.py\<close> in the directories its walk reaches.
\<close>

theorem extractor_collects_top_level_segments:
  "(c \<in> set (file_imports (Text content (Some tree))) \<longleftrightarrow>
      (\<exists>names name. Import names \<in> nodes_of tree \<and> name \<in> set names \<and> c = first_segment name)
      \<or> (\<exists>m. ImportFrom (Some m) 0 \<in> nodes_of tree \<and> m \<noteq> [] \<and> c = first_segment m))
   \<and> first_segment name = takeWhile (\<lambda>ch. ch \<noteq> CHR ''.'') name
   \<and> (0 < level \<longrightarrow> node_imports (ImportFrom module level) = [])
   \<and> file_imports (Unreadable e) = [] \<and> file_imports (Text content None) = []
   \<and> (c \<in> set (scan_python_files root) \<longleftrightarrow>
        (\<exists>d filename src. d \<in> walked (\<lambda>name. name \<notin> exclude_dirs) root
           \<and> (filename, src) \<in> set (files d) \<and> endswith filename ''.py''
           \<and> c \<in> set (file_imports src)))"
  using file_imports_iff [of c content tree] first_segment_takeWhile [of name]
    scan_python_files_iff [of c root]
  by simp

theorem extractor_collects_top_level_segments_witness:
  "set (file_imports (Text [] (Some example_module))) = {''os'', ''requests'', ''bs4'', ''yaml''}
   \<and> ''yaml'' \<in> set (file_imports (Text [] (Some example_module)))
   \<and> ''utils'' \<notin> set (file_imports (Text [] (Some example_module)))
   \<and> first_segment ''os.path'' = ''os''
   \<and> node_imports (ImportFrom (Some ''utils'') 1) = []"
proof -
  have nested: "Import [''yaml''] \<in> nodes_of example_module"
    unfolding example_module_def
    by (rule nodes_of.child [where n = "Node [Import [''yaml'']]"],
        rule nodes_of.child [OF nodes_of.root]) simp_all
  have collected: "set (file_imports (Text [] (Some example_module))) =
                     {''os'', ''requests'', ''bs4'', ''yaml''}"
    by code_simp
  from extractor_collects_top_level_segments
    [of "''yaml''" "[]" example_module "''os.path''" 1 "Some ''utils''" "[]" venv_project]
  have "''yaml'' \<in> set (file_imports (Text [] (Some example_module)))"
    and "first_segment ''os.path'' = ''os''"
    and "node_imports (ImportFrom (Some ''utils'') 1) = []"
    using nested by (auto simp add: first_segment_takeWhile)
  then show ?thesis
    using collected by simp
qed


section \<open>Local modules\<close>

lemma find_local_modules_iff:
  "name \<in> find_local_modules root \<longleftrightarrow>
     name = dname root
     \<or> (\<exists>d. d \<in> walked (\<lambda>name. True) root \<and> ''__init__.py'' \<in> set (filenames d)
           \<and> dname d = name)"
proof -
  have "name \<in> find_local_modules root \<longleftrightarrow>
          name = dname root
          \<or> (\<exists>d \<in> snd ` set (os_walk (\<lambda>name. True) [] root).
                ''__init__.py'' \<in> set (filenames d) \<and> dname d = name)"
    by (auto simp add: find_local_modules_def)
  then show ?thesis
    by (simp only: set_os_walk) blast
qed

lemma walked_mono: "d \<in> walked keep root \<Longrightarrow> d \<in> walked (\<lambda>name. True) root"
  by (induction rule: walked.induct) (auto intro: walked.intros)

text \<open>
  C10. The local-module set is the root's own name together with the name of every
  directory under the root, at any depth and whatever the names of the directories above
  it, that holds a file \<open>__init__.py\<close>: the walk prunes nothing, while the source scan
  reaches only part of these directories. Every such name is dropped by the filter of step 2.
\<close>

theorem local_modules_ignore_exclusions:
  "(name \<in> find_local_modules root \<longleftrightarrow>
      name = dname root
      \<or> (\<exists>d. d \<in> walked (\<lambda>name. True) root \<and> ''__init__.py'' \<in> set (filenames d)
            \<and> dname d = name))
   \<and> (d \<in> walked (\<lambda>name. True) root \<and> ''__init__.py'' \<in> set (filenames d) \<longrightarrow>
        dname d \<in> local_modules (init_generator stdlib root)
        \<and> dname d \<notin> external_imports (init_generator stdlib root) discovered)
   \<and> walked (\<lambda>name. name \<notin> exclude_dirs) root \<subseteq> walked (\<lambda>name. True) root"
proof (intro conjI impI)
  show "name \<in> find_local_modules root \<longleftrightarrow>
      name = dname root
      \<or> (\<exists>d. d \<in> walked (\<lambda>name. True) root \<and> ''__init__.py'' \<in> set (filenames d)
            \<and> dname d = name)"
    by (rule find_local_modules_iff)
  assume package: "d \<in> walked (\<lambda>name. True) root \<and> ''__init__.py'' \<in> set (filenames d)"
  then show local: "dname d \<in> local_modules (init_generator stdlib root)"
    by (auto simp add: init_generator_def find_local_modules_iff)
  then show "dname d \<notin> external_imports (init_generator stdlib root) discovered"
    by (simp add: external_imports_iff)
next
  show "walked (\<lambda>name. name \<notin> exclude_dirs) root \<subseteq> walked (\<lambda>name. True) root"
    using walked_mono by blast
qed

theorem local_modules_ignore_exclusions_witness:
  "find_local_modules venv_project = {''proj'', ''requests''}
   \<and> scan_python_files venv_project = [''requests'']
   \<and> external_imports (init_generator {''os'', ''sys''} venv_project)
        (scan_python_files venv_project) = {}
   \<and> example_index ''requests'' = Some \<lparr>dist_version = Some ''2.31.0'', dist_name = Some ''requests''\<rparr>
   \<and> main example_index KNOWN_CLI_AND_CONFIG_TOOLS {''os'', ''sys''} [] venv_project =
       \<lparr>exit_status = 0, manifest = Some (first_edition_header @ ''pytest==8.0.0'' @ newline)\<rparr>"
proof -
  let ?package = "Dir ''requests'' [(''__init__.py'', Text [] (Some (Node [])))] []"
  let ?lib = "Dir ''lib'' [] [?package]"
  let ?venv = "Dir ''.venv'' [] [?lib]"
  have "?venv \<in> walked (\<lambda>name. True) venv_project"
    unfolding venv_project_def by (rule walked.sub [OF walked.top]) simp_all
  then have "?lib \<in> walked (\<lambda>name. True) venv_project"
    by (rule walked.sub) simp_all
  then have reached: "?package \<in> walked (\<lambda>name. True) venv_project"
    by (rule walked.sub) simp_all
  have marker: "''__init__.py'' \<in> set (filenames ?package)"
    by (simp add: filenames_def)
  have names: "find_local_modules venv_project = {''proj'', ''requests''}"
    by code_simp
  have scan: "scan_python_files venv_project = [''requests'']"
    by code_simp
  have installed: "example_index ''requests'' =
      Some \<lparr>dist_version = Some ''2.31.0'', dist_name = Some ''requests''\<rparr>"
    by (simp add: example_index_def)
  have result: "main example_index KNOWN_CLI_AND_CONFIG_TOOLS {''os'', ''sys''} [] venv_project =
       \<lparr>exit_status = 0, manifest = Some (first_edition_header @ ''pytest==8.0.0'' @ newline)\<rparr>"
    by code_simp
  from local_modules_ignore_exclusions
    [of "''requests''" venv_project ?package "{''os'', ''sys''}" "[''requests'']"]
  have "''requests'' \<notin> external_imports (init_generator {''os'', ''sys''} venv_project) [''requests'']"
    using reached marker by simp
  then have "external_imports (init_generator {''os'', ''sys''} venv_project)
        (scan_python_files venv_project) = {}"
    by (auto simp add: scan external_imports_iff)
  then show ?thesis
    using names scan installed result by simp
qed


section \<open>The requirement mapping\<close>

lemma dict_keys_dom: "dict_keys d = dom (map_of d)"
  by (simp add: dict_keys_def dom_map_of_conv_image_fst)

lemma dict_keys_update: "dict_keys (AList.update k v d) = insert k (dict_keys d)"
  by (simp add: dict_keys_dom update_conv')

lemma not_key_map_of: "k \<notin> dict_keys d \<longleftrightarrow> map_of d k = None"
  by (auto simp add: dict_keys_dom)

text \<open>What one step of the candidate loop does to the mapping, case by case.\<close>

lemma resolve_import_final:
  "final_requirements (resolve_import idx imp g) =
     (case idx (dict_get IMPORT_TO_PYPI_MAP imp imp) of
        None \<Rightarrow> final_requirements g
      | Some d \<Rightarrow>
          (case dist_name d of
             None \<Rightarrow> final_requirements g
           | Some name \<Rightarrow>
               if name \<noteq> [] \<and> name \<notin> dict_keys (final_requirements g)
               then AList.update name (dist_version d) (final_requirements g)
               else final_requirements g))"
  by (simp add: resolve_import_def get_package_info_def Let_def split: option.splits)

lemma resolve_package_final:
  "gemini_final_requirements (resolve_package idx pkg g) =
     (case idx (dict_get GEMINI_IMPORT_TO_PYPI_MAP pkg pkg) of
        None \<Rightarrow> gemini_final_requirements g
      | Some d \<Rightarrow>
          if dist_name d \<notin> dict_keys (gemini_final_requirements g)
          then AList.update (dist_name d) (dist_version d) (gemini_final_requirements g)
          else gemini_final_requirements g)"
  by (simp add: resolve_package_def Let_def split: option.splits)

lemma check_tool_final:
  "final_requirements (check_tool idx tool g) =
     (if tool \<in> dict_keys (final_requirements g) then final_requirements g
      else (case idx tool of
              None \<Rightarrow> final_requirements g
            | Some d \<Rightarrow>
                (case dist_name d of
                   None \<Rightarrow> final_requirements g
                 | Some name \<Rightarrow>
                     if name \<noteq> []
                     then AList.update name (dist_version d) (final_requirements g)
                     else final_requirements g)))"
  by (simp add: check_tool_def get_package_info_def Let_def split: option.splits)

lemma distinct_resolve_import:
  "distinct (map fst (final_requirements g)) \<Longrightarrow>
   distinct (map fst (final_requirements (resolve_import idx imp g)))"
  by (simp add: resolve_import_final distinct_update split: option.splits)

lemma distinct_resolve_imports:
  "distinct (map fst (final_requirements g)) \<Longrightarrow>
   distinct (map fst (final_requirements (resolve_imports idx imps g)))"
  unfolding resolve_imports_def
  by (induction imps arbitrary: g) (simp_all add: distinct_resolve_import)

lemma distinct_check_tool:
  "distinct (map fst (final_requirements g)) \<Longrightarrow>
   distinct (map fst (final_requirements (check_tool idx tool g)))"
  by (simp add: check_tool_final distinct_update split: option.splits)

lemma distinct_check_tools:
  "distinct (map fst (final_requirements g)) \<Longrightarrow>
   distinct (map fst (final_requirements (check_tools idx order g)))"
  unfolding check_tools_def
  by (induction order arbitrary: g) (simp_all add: distinct_check_tool)

lemma distinct_resolve_package:
  "distinct (map fst (gemini_final_requirements g)) \<Longrightarrow>
   distinct (map fst (gemini_final_requirements (resolve_package idx pkg g)))"
  by (simp add: resolve_package_final distinct_update split: option.splits)

lemma distinct_resolve_packages:
  "distinct (map fst (gemini_final_requirements g)) \<Longrightarrow>
   distinct (map fst (gemini_final_requirements (fold (resolve_package idx) pkgs g)))"
  by (induction pkgs arbitrary: g) (simp_all add: distinct_resolve_package)

lemma distinct_run:
  "distinct (map fst (final_requirements (run idx order root_parent root (init_generator stdlib root))))"
  by (simp add: run_def resolve_discovered_def distinct_check_tools distinct_resolve_imports
      init_generator_def)

lemma distinct_parse_and_resolve_versions:
  "distinct (map fst (gemini_final_requirements g)) \<Longrightarrow>
   distinct (map fst (gemini_final_requirements (parse_and_resolve_versions idx gemini_output g)))"
  by (simp add: parse_and_resolve_versions_def distinct_resolve_packages)

text \<open>An entry, once recorded, keeps its value through the candidate loop.\<close>

lemma resolve_import_keeps:
  "map_of (final_requirements g) k = Some v \<Longrightarrow>
   map_of (final_requirements (resolve_import idx imp g)) k = Some v"
  by (auto simp add: resolve_import_final update_conv' not_key_map_of split: option.splits)

lemma resolve_imports_keeps:
  "map_of (final_requirements g) k = Some v \<Longrightarrow>
   map_of (final_requirements (resolve_imports idx imps g)) k = Some v"
  unfolding resolve_imports_def
  by (induction imps arbitrary: g) (simp_all add: resolve_import_keeps)

lemma resolve_package_keeps:
  "map_of (gemini_final_requirements g) k = Some v \<Longrightarrow>
   map_of (gemini_final_requirements (resolve_package idx pkg g)) k = Some v"
  by (auto simp add: resolve_package_final update_conv' not_key_map_of split: option.splits)

lemma resolve_packages_keeps:
  "map_of (gemini_final_requirements g) k = Some v \<Longrightarrow>
   map_of (gemini_final_requirements (fold (resolve_package idx) pkgs g)) k = Some v"
  by (induction pkgs arbitrary: g) (simp_all add: resolve_package_keeps)

text \<open>A name stays absent while no candidate reports it.\<close>

lemma resolve_imports_absent:
  assumes "k \<notin> dict_keys (final_requirements g)"
    and "\<forall>p \<in> set pre. \<forall>e. idx (dict_get IMPORT_TO_PYPI_MAP p p) = Some e \<longrightarrow> dist_name e \<noteq> Some k"
  shows "k \<notin> dict_keys (final_requirements (resolve_imports idx pre g))"
  using assms unfolding resolve_imports_def
proof (induction pre arbitrary: g)
  case Nil
  then show ?case by simp
next
  case (Cons p pre)
  have "k \<notin> dict_keys (final_requirements (resolve_import idx p g))"
    using Cons.prems
    by (auto simp add: resolve_import_final dict_keys_update split: option.splits)
  then show ?case
    using Cons by simp
qed

lemma resolve_packages_absent:
  assumes "k \<notin> dict_keys (gemini_final_requirements g)"
    and "\<forall>p \<in> set pre. \<forall>e. idx (dict_get GEMINI_IMPORT_TO_PYPI_MAP p p) = Some e \<longrightarrow> dist_name e \<noteq> k"
  shows "k \<notin> dict_keys (gemini_final_requirements (fold (resolve_package idx) pre g))"
  using assms
proof (induction pre arbitrary: g)
  case Nil
  then show ?case by simp
next
  case (Cons p pre)
  have "k \<notin> dict_keys (gemini_final_requirements (resolve_package idx p g))"
    using Cons.prems
    by (auto simp add: resolve_package_final dict_keys_update split: option.splits)
  then show ?case
    using Cons by simp
qed

lemma first_found_wins_imports:
  assumes "idx (dict_get IMPORT_TO_PYPI_MAP imp imp) = Some d"
    and "dist_name d = Some k" and "k \<noteq> []"
    and "k \<notin> dict_keys (final_requirements g)"
    and "\<forall>p \<in> set pre. \<forall>e. idx (dict_get IMPORT_TO_PYPI_MAP p p) = Some e \<longrightarrow> dist_name e \<noteq> Some k"
  shows "map_of (final_requirements (resolve_imports idx (pre @ imp # post) g)) k =
           Some (dist_version d)"
proof -
  let ?g1 = "resolve_imports idx pre g"
  have "k \<notin> dict_keys (final_requirements ?g1)"
    using assms(4,5) by (rule resolve_imports_absent)
  then have "map_of (final_requirements (resolve_import idx imp ?g1)) k = Some (dist_version d)"
    using assms(1-3) by (simp add: resolve_import_final update_conv')
  then have "map_of (final_requirements (resolve_imports idx post (resolve_import idx imp ?g1))) k =
               Some (dist_version d)"
    by (rule resolve_imports_keeps)
  then show ?thesis
    by (simp add: resolve_imports_def)
qed

lemma first_found_wins_packages:
  assumes "idx (dict_get GEMINI_IMPORT_TO_PYPI_MAP pkg pkg) = Some d"
    and "dist_name d \<notin> dict_keys (gemini_final_requirements g)"
    and "\<forall>p \<in> set pre. \<forall>e. idx (dict_get GEMINI_IMPORT_TO_PYPI_MAP p p) = Some e \<longrightarrow>
           dist_name e \<noteq> dist_name d"
  shows "map_of (gemini_final_requirements (fold (resolve_package idx) (pre @ pkg # post) g))
           (dist_name d) = Some (dist_version d)"
proof -
  let ?g1 = "fold (resolve_package idx) pre g"
  have "dist_name d \<notin> dict_keys (gemini_final_requirements ?g1)"
    using assms(2,3) by (rule resolve_packages_absent)
  then have "map_of (gemini_final_requirements (resolve_package idx pkg ?g1)) (dist_name d) =
               Some (dist_version d)"
    using assms(1) by (simp add: resolve_package_final update_conv')
  then have "map_of (gemini_final_requirements
               (fold (resolve_package idx) post (resolve_package idx pkg ?g1))) (dist_name d) =
               Some (dist_version d)"
    by (rule resolve_packages_keeps)
  then show ?thesis
    by simp
qed

lemma check_tools_untouched:
  assumes "\<forall>tool \<in> set order. \<forall>e. idx tool = Some e \<longrightarrow> dist_name e \<noteq> Some k"
  shows "map_of (final_requirements (check_tools idx order g)) k = map_of (final_requirements g) k"
  using assms unfolding check_tools_def
proof (induction order arbitrary: g)
  case Nil
  then show ?case by simp
next
  case (Cons tool order)
  have "map_of (final_requirements (check_tool idx tool g)) k = map_of (final_requirements g) k"
    using Cons.prems by (auto simp add: check_tool_final update_conv' split: option.splits)
  then show ?case
    using Cons by simp
qed

text \<open>
  The mapping never holds two entries with one name, in either variant. Its keys are
  the names the index reports. In the loop over the candidates, of either variant, a name
  that is not yet a key and that the index reports for a candidate, but for none of the
  candidates processed before it, is recorded with the version reported for that candidate,
  whatever the candidates processed after it report. The known-tools pass of the syntactic
  variant leaves alone every name that no tool lookup reports.
\<close>

lemma candidate_loops_first_found_wins:
  "distinct (map fst (final_requirements
      (run idx order root_parent root (init_generator stdlib root))))
   \<and> (distinct (map fst (gemini_final_requirements gg)) \<longrightarrow>
        distinct (map fst (gemini_final_requirements
          (parse_and_resolve_versions idx gemini_output gg))))
   \<and> (idx (dict_get IMPORT_TO_PYPI_MAP imp imp) = Some d \<and> dist_name d = Some k \<and> k \<noteq> []
        \<and> k \<notin> dict_keys (final_requirements g)
        \<and> (\<forall>p \<in> set pre. \<forall>e. idx (dict_get IMPORT_TO_PYPI_MAP p p) = Some e \<longrightarrow>
              dist_name e \<noteq> Some k) \<longrightarrow>
        map_of (final_requirements (resolve_imports idx (pre @ imp # post) g)) k =
          Some (dist_version d))
   \<and> (idx (dict_get GEMINI_IMPORT_TO_PYPI_MAP pkg pkg) = Some d'
        \<and> dist_name d' \<notin> dict_keys (gemini_final_requirements gg)
        \<and> (\<forall>p \<in> set pre'. \<forall>e. idx (dict_get GEMINI_IMPORT_TO_PYPI_MAP p p) = Some e \<longrightarrow>
              dist_name e \<noteq> dist_name d') \<longrightarrow>
        map_of (gemini_final_requirements (fold (resolve_package idx) (pre' @ pkg # post') gg))
          (dist_name d') = Some (dist_version d'))
   \<and> ((\<forall>tool \<in> set order. \<forall>e. idx tool = Some e \<longrightarrow> dist_name e \<noteq> Some k') \<longrightarrow>
        map_of (final_requirements (check_tools idx order g)) k' =
          map_of (final_requirements g) k')"
proof (intro conjI impI)
  show "distinct (map fst (final_requirements
      (run idx order root_parent root (init_generator stdlib root))))"
    by (rule distinct_run)
  show "distinct (map fst (gemini_final_requirements
          (parse_and_resolve_versions idx gemini_output gg)))"
    if "distinct (map fst (gemini_final_requirements gg))"
    using that by (rule distinct_parse_and_resolve_versions)
  show "map_of (final_requirements (resolve_imports idx (pre @ imp # post) g)) k =
          Some (dist_version d)"
    if "idx (dict_get IMPORT_TO_PYPI_MAP imp imp) = Some d \<and> dist_name d = Some k \<and> k \<noteq> []
        \<and> k \<notin> dict_keys (final_requirements g)
        \<and> (\<forall>p \<in> set pre. \<forall>e. idx (dict_get IMPORT_TO_PYPI_MAP p p) = Some e \<longrightarrow>
              dist_name e \<noteq> Some k)"
    using that by (intro first_found_wins_imports) simp_all
  show "map_of (gemini_final_requirements (fold (resolve_package idx) (pre' @ pkg # post') gg))
          (dist_name d') = Some (dist_version d')"
    if "idx (dict_get GEMINI_IMPORT_TO_PYPI_MAP pkg pkg) = Some d'
        \<and> dist_name d' \<notin> dict_keys (gemini_final_requirements gg)
        \<and> (\<forall>p \<in> set pre'. \<forall>e. idx (dict_get GEMINI_IMPORT_TO_PYPI_MAP p p) = Some e \<longrightarrow>
              dist_name e \<noteq> dist_name d')"
    using that by (intro first_found_wins_packages) simp_all
  show "map_of (final_requirements (check_tools idx order g)) k' =
          map_of (final_requirements g) k'"
    if "\<forall>tool \<in> set order. \<forall>e. idx tool = Some e \<longrightarrow> dist_name e \<noteq> Some k'"
    using that by (rule check_tools_untouched)
qed

lemma candidate_loops_first_found_wins_example:
  "map_of (final_requirements
        (resolve_imports yaml_index [''pyyaml'', ''yaml''] example_generator)) ''PyYAML'' =
       Some (Some ''6.0'')
   \<and> final_requirements (resolve_imports yaml_index [''pyyaml'', ''yaml''] example_generator) =
       [(''PyYAML'', Some ''6.0'')]
   \<and> map_of (gemini_final_requirements
        (fold (resolve_package yaml_index) [''pyyaml'', ''yaml''] example_gemini_generator))
        (Some ''PyYAML'') = Some (Some ''6.0'')
   \<and> map_of (final_requirements (check_tools yaml_index KNOWN_CLI_AND_CONFIG_TOOLS
        example_generator)) ''PyYAML'' = None
   \<and> distinct (map fst (final_requirements
        (run yaml_index KNOWN_CLI_AND_CONFIG_TOOLS [] one_file_project
           (init_generator {''os''} one_file_project))))"
proof -
  let ?d = "\<lparr>dist_version = Some ''6.0'', dist_name = Some ''PyYAML''\<rparr>"
  note inst = candidate_loops_first_found_wins
    [of yaml_index KNOWN_CLI_AND_CONFIG_TOOLS "[]" one_file_project "{''os''}"
      example_gemini_generator "[]" "''pyyaml''" ?d "''PyYAML''" example_generator "[]"
      "[''yaml'']" "''pyyaml''" ?d "[]" "[''yaml'']" "''PyYAML''"]
  have all: "final_requirements (resolve_imports yaml_index [''pyyaml'', ''yaml''] example_generator) =
     [(''PyYAML'', Some ''6.0'')]"
    by code_simp
  have first: "yaml_index (dict_get IMPORT_TO_PYPI_MAP ''pyyaml'' ''pyyaml'') = Some ?d"
    by code_simp
  have first': "yaml_index (dict_get GEMINI_IMPORT_TO_PYPI_MAP ''pyyaml'' ''pyyaml'') = Some ?d"
    by code_simp
  have tools: "\<forall>tool \<in> set KNOWN_CLI_AND_CONFIG_TOOLS. \<forall>e. yaml_index tool = Some e \<longrightarrow>
      dist_name e \<noteq> Some ''PyYAML''"
    by (simp add: KNOWN_CLI_AND_CONFIG_TOOLS_def yaml_index_def)
  have "yaml_index (dict_get IMPORT_TO_PYPI_MAP ''pyyaml'' ''pyyaml'') = Some ?d
        \<and> dist_name ?d = Some ''PyYAML'' \<and> ''PyYAML'' \<noteq> []
        \<and> ''PyYAML'' \<notin> dict_keys (final_requirements example_generator)
        \<and> (\<forall>p \<in> set []. \<forall>e. yaml_index (dict_get IMPORT_TO_PYPI_MAP p p) = Some e \<longrightarrow>
              dist_name e \<noteq> Some ''PyYAML'')"
    using first by (simp add: example_generator_def dict_keys_def)
  from inst [THEN conjunct2, THEN conjunct2, THEN conjunct1, THEN mp, OF this]
  have from_imports: "map_of (final_requirements
        (resolve_imports yaml_index [''pyyaml'', ''yaml''] example_generator)) ''PyYAML'' =
       Some (Some ''6.0'')"
    by (simp only: append_Nil distribution.simps)
  have "yaml_index (dict_get GEMINI_IMPORT_TO_PYPI_MAP ''pyyaml'' ''pyyaml'') = Some ?d
        \<and> dist_name ?d \<notin> dict_keys (gemini_final_requirements example_gemini_generator)
        \<and> (\<forall>p \<in> set []. \<forall>e. yaml_index (dict_get GEMINI_IMPORT_TO_PYPI_MAP p p) = Some e \<longrightarrow>
              dist_name e \<noteq> dist_name ?d)"
    using first' by (simp add: example_gemini_generator_def dict_keys_def)
  from inst [THEN conjunct2, THEN conjunct2, THEN conjunct2, THEN conjunct1, THEN mp, OF this]
  have from_packages: "map_of (gemini_final_requirements
        (fold (resolve_package yaml_index) [''pyyaml'', ''yaml''] example_gemini_generator))
        (Some ''PyYAML'') = Some (Some ''6.0'')"
    by (simp only: append_Nil distribution.simps)
  from inst [THEN conjunct2, THEN conjunct2, THEN conjunct2, THEN conjunct2, THEN mp, OF tools]
  have untouched: "map_of (final_requirements (check_tools yaml_index KNOWN_CLI_AND_CONFIG_TOOLS
        example_generator)) ''PyYAML'' = None"
    by (simp add: example_generator_def)
  from inst [THEN conjunct1] from_imports all from_packages untouched
  show ?thesis
    by (intro conjI)
qed


text \<open>
  C2 holds of the two loops over the candidates and fails of a whole run of the syntactic
  variant. Step 4 tests whether the tool's own name is a key, not the name the index
  reports, and then assigns without a test: in the environment of \<open>shared_name_index\<close>,
  step 3 records \<open>shared\<close> with the version found first, 1.0, ignoring 2.0, and step 4
  replaces it by the version found last, 3.0, which is what the manifest lists.
\<close>

theorem known_tool_overwrites_first_found:
  "final_requirements
     (resolve_imports shared_name_index [''aaa'', ''bbb'']
        (init_generator {''os'', ''sys''} shared_name_project)) = [(''shared'', Some ''1.0'')]
   \<and> final_requirements
     (run shared_name_index KNOWN_CLI_AND_CONFIG_TOOLS [] shared_name_project
        (init_generator {''os'', ''sys''} shared_name_project)) = [(''shared'', Some ''3.0'')]
   \<and> manifest (main shared_name_index KNOWN_CLI_AND_CONFIG_TOOLS {''os'', ''sys''} []
        shared_name_project) =
       Some (first_edition_header @ ''shared==3.0'' @ newline)"
  by code_simp


section \<open>Local modules and resolution\<close>

lemma resolve_import_sets [simp]:
  "std_lib (resolve_import idx imp g) = std_lib g"
  "local_modules (resolve_import idx imp g) = local_modules g"
  by (simp_all add: resolve_import_def get_package_info_def Let_def split: option.splits)

lemma external_imports_remove_local:
  assumes "name \<in> local_modules g"
  shows "external_imports g (removeAll name discovered) = external_imports g discovered"
  using assms by (auto simp add: external_imports_iff)

lemma resolve_imports_source:
  assumes "k \<in> dict_keys (final_requirements (resolve_imports idx imps g))"
  shows "k \<in> dict_keys (final_requirements g)
         \<or> (\<exists>imp \<in> set imps. \<exists>d. idx (dict_get IMPORT_TO_PYPI_MAP imp imp) = Some d
               \<and> dist_name d = Some k)"
  using assms unfolding resolve_imports_def
proof (induction imps arbitrary: g)
  case Nil
  then show ?case by simp
next
  case (Cons imp imps)
  from Cons.IH [of "resolve_import idx imp g"] Cons.prems
  have "k \<in> dict_keys (final_requirements (resolve_import idx imp g))
        \<or> (\<exists>imp \<in> set imps. \<exists>d. idx (dict_get IMPORT_TO_PYPI_MAP imp imp) = Some d
               \<and> dist_name d = Some k)"
    by simp
  moreover have "k \<in> dict_keys (final_requirements g)
        \<or> (\<exists>d. idx (dict_get IMPORT_TO_PYPI_MAP imp imp) = Some d \<and> dist_name d = Some k)"
    if "k \<in> dict_keys (final_requirements (resolve_import idx imp g))"
    using that
    by (auto simp add: resolve_import_final dict_keys_update split: option.splits if_splits)
  ultimately show ?case
    by auto
qed

lemma check_tools_source:
  assumes "k \<in> dict_keys (final_requirements (check_tools idx order g))"
  shows "k \<in> dict_keys (final_requirements g)
         \<or> (\<exists>tool \<in> set order. \<exists>d. idx tool = Some d \<and> dist_name d = Some k)"
  using assms unfolding check_tools_def
proof (induction order arbitrary: g)
  case Nil
  then show ?case by simp
next
  case (Cons tool order)
  from Cons.IH [of "check_tool idx tool g"] Cons.prems
  have "k \<in> dict_keys (final_requirements (check_tool idx tool g))
        \<or> (\<exists>tool \<in> set order. \<exists>d. idx tool = Some d \<and> dist_name d = Some k)"
    by simp
  moreover have "k \<in> dict_keys (final_requirements g)
        \<or> (\<exists>d. idx tool = Some d \<and> dist_name d = Some k)"
    if "k \<in> dict_keys (final_requirements (check_tool idx tool g))"
    using that
    by (auto simp add: check_tool_final dict_keys_update split: option.splits if_splits)
  ultimately show ?case
    by auto
qed

text \<open>
  C1, as the code has it. A discovered name that is a local module name is dropped by the
  filter of step 2: the whole run, the mapping included, is what it would be had the name
  not been discovered. Every entry of the final mapping was present before the run, or is
  what the index reports for a discovered name that is neither empty, nor in the standard
  library, nor local, or is what the index reports for one of the tools of step 4. Step 4
  does not consult the local-module set.
\<close>

theorem local_names_are_not_resolved_as_imports:
  "(name \<in> local_modules g \<longrightarrow>
      name \<notin> external_imports g discovered
      \<and> resolve_discovered idx order discovered g =
          resolve_discovered idx order (removeAll name discovered) g)
   \<and> (k \<in> dict_keys (final_requirements (resolve_discovered idx order discovered g)) \<longrightarrow>
        k \<in> dict_keys (final_requirements g)
        \<or> (\<exists>imp \<in> set discovered. imp \<noteq> [] \<and> imp \<notin> std_lib g \<and> imp \<notin> local_modules g
              \<and> (\<exists>d. idx (dict_get IMPORT_TO_PYPI_MAP imp imp) = Some d \<and> dist_name d = Some k))
        \<or> (\<exists>tool \<in> set order. \<exists>d. idx tool = Some d \<and> dist_name d = Some k))"
proof (intro conjI impI)
  assume "name \<in> local_modules g"
  then show "name \<notin> external_imports g discovered"
    by (simp add: external_imports_iff)
  show "resolve_discovered idx order discovered g =
          resolve_discovered idx order (removeAll name discovered) g"
    using \<open>name \<in> local_modules g\<close>
    by (simp add: resolve_discovered_def external_imports_remove_local)
next
  let ?candidates = "sorted_list_of_set (external_imports g discovered)"
  assume "k \<in> dict_keys (final_requirements (resolve_discovered idx order discovered g))"
  then have "k \<in> dict_keys (final_requirements (resolve_imports idx ?candidates g))
        \<or> (\<exists>tool \<in> set order. \<exists>d. idx tool = Some d \<and> dist_name d = Some k)"
    unfolding resolve_discovered_def by (rule check_tools_source)
  moreover have "k \<in> dict_keys (final_requirements g)
        \<or> (\<exists>imp \<in> set ?candidates. \<exists>d. idx (dict_get IMPORT_TO_PYPI_MAP imp imp) = Some d
               \<and> dist_name d = Some k)"
    if "k \<in> dict_keys (final_requirements (resolve_imports idx ?candidates g))"
    using that by (rule resolve_imports_source)
  moreover have "set ?candidates =
      {imp \<in> set discovered. imp \<noteq> [] \<and> imp \<notin> std_lib g \<and> imp \<notin> local_modules g}"
    by (auto simp add: finite_external_imports external_imports_iff)
  ultimately show "k \<in> dict_keys (final_requirements g)
        \<or> (\<exists>imp \<in> set discovered. imp \<noteq> [] \<and> imp \<notin> std_lib g \<and> imp \<notin> local_modules g
              \<and> (\<exists>d. idx (dict_get IMPORT_TO_PYPI_MAP imp imp) = Some d \<and> dist_name d = Some k))
        \<or> (\<exists>tool \<in> set order. \<exists>d. idx tool = Some d \<and> dist_name d = Some k)"
    by blast
qed

theorem local_names_are_not_resolved_as_imports_witness:
  "collision_index ''myapp'' = Some \<lparr>dist_version = Some ''0.1'', dist_name = Some ''myapp''\<rparr>
   \<and> ''myapp'' \<notin> external_imports example_generator [''myapp'', ''requests'']
   \<and> resolve_discovered collision_index KNOWN_CLI_AND_CONFIG_TOOLS [''myapp'', ''requests'']
        example_generator =
      resolve_discovered collision_index KNOWN_CLI_AND_CONFIG_TOOLS [''requests'']
        example_generator
   \<and> final_requirements
        (resolve_discovered collision_index KNOWN_CLI_AND_CONFIG_TOOLS [''myapp'', ''requests'']
           example_generator) = [(''requests'', Some ''2.31.0'')]"
proof -
  have installed: "collision_index ''myapp'' =
      Some \<lparr>dist_version = Some ''0.1'', dist_name = Some ''myapp''\<rparr>"
    by (simp add: collision_index_def)
  have local: "''myapp'' \<in> local_modules example_generator"
    by (simp add: example_generator_def)
  have result: "final_requirements
        (resolve_discovered collision_index KNOWN_CLI_AND_CONFIG_TOOLS [''requests'']
           example_generator) = [(''requests'', Some ''2.31.0'')]"
    by code_simp
  from local_names_are_not_resolved_as_imports
    [of "''myapp''" example_generator "[''myapp'', ''requests'']" collision_index
      KNOWN_CLI_AND_CONFIG_TOOLS "''requests''"]
  show ?thesis
    using installed local result by simp
qed

text \<open>
  C1 as stated fails: in a project with a local package \<open>pytest\<close> that a source file
  imports, in an environment where the distribution \<open>pytest\<close> is installed, step 4 puts
  the distribution in the mapping and the manifest.
\<close>

theorem local_tool_name_is_resolved:
  "''pytest'' \<in> set (scan_python_files local_pytest_project)
   \<and> ''pytest'' \<in> find_local_modules local_pytest_project
   \<and> example_index ''pytest'' = Some \<lparr>dist_version = Some ''8.0.0'', dist_name = Some ''pytest''\<rparr>
   \<and> final_requirements
        (run example_index KNOWN_CLI_AND_CONFIG_TOOLS [] local_pytest_project
           (init_generator {''os'', ''sys''} local_pytest_project)) =
       [(''pytest'', Some ''8.0.0'')]
   \<and> manifest (main example_index KNOWN_CLI_AND_CONFIG_TOOLS {''os'', ''sys''} []
        local_pytest_project) =
       Some (first_edition_header @ ''pytest==8.0.0'' @ newline)"
  by code_simp


section \<open>Listing order\<close>

lemma list_all2_partner:
  "list_all2 P xs ys \<Longrightarrow> x \<in> set xs \<Longrightarrow> \<exists>y \<in> set ys. P x y"
  by (induction rule: list_all2_induct) auto

lemma list_all2_partner_back:
  "list_all2 P xs ys \<Longrightarrow> y \<in> set ys \<Longrightarrow> \<exists>x \<in> set xs. P x y"
  by (induction rule: list_all2_induct) auto

lemma same_project_fields:
  assumes "same_project d d'"
  shows "dname d = dname d'" and "mset (files d) = mset (files d')"
  using assms by (auto elim: same_project.cases)

lemma same_project_subdir:
  assumes "same_project d d'" and "s \<in> set (subdirs d)"
  shows "\<exists>s' \<in> set (subdirs d'). same_project s s'"
  using assms(1)
proof (cases rule: same_project.cases)
  case (listing fs fs' subs'' subs' subs name)
  from assms(2) listing(1) have "s \<in> set subs"
    by simp
  from list_all2_partner [OF listing(5) this]
  obtain s' where "s' \<in> set subs''" and "same_project s s'"
    by blast
  moreover have "set subs'' = set subs'"
    using listing(4) by (rule mset_eq_setD)
  ultimately show ?thesis
    using listing(2) by auto
qed

lemma same_project_subdir_back:
  assumes "same_project d d'" and "s' \<in> set (subdirs d')"
  shows "\<exists>s \<in> set (subdirs d). same_project s s'"
  using assms(1)
proof (cases rule: same_project.cases)
  case (listing fs fs' subs'' subs' subs name)
  have "set subs'' = set subs'"
    using listing(4) by (rule mset_eq_setD)
  with assms(2) listing(2) have "s' \<in> set subs''"
    by simp
  from list_all2_partner_back [OF listing(5) this]
  obtain s where "s \<in> set subs" and "same_project s s'"
    by blast
  then show ?thesis
    using listing(1) by auto
qed

lemma walked_same_project:
  assumes "same_project root root'" and "d \<in> walked keep root"
  shows "\<exists>d' \<in> walked keep root'. same_project d d'"
  using assms(2)
proof (induction rule: walked.induct)
  case top
  show ?case
    using assms(1) walked.top by blast
next
  case (sub d s)
  then obtain d' where d': "d' \<in> walked keep root'" "same_project d d'"
    by blast
  from same_project_subdir [OF d'(2) sub.hyps(2)]
  obtain s' where s': "s' \<in> set (subdirs d')" "same_project s s'"
    by blast
  have "keep (dname s')"
    using sub.hyps(3) same_project_fields(1) [OF s'(2)] by simp
  with d'(1) s'(1) have "s' \<in> walked keep root'"
    by (rule walked.sub)
  with s'(2) show ?case
    by blast
qed

lemma walked_same_project_back:
  assumes "same_project root root'" and "d' \<in> walked keep root'"
  shows "\<exists>d \<in> walked keep root. same_project d d'"
  using assms(2)
proof (induction rule: walked.induct)
  case top
  show ?case
    using assms(1) walked.top by blast
next
  case (sub d' s')
  then obtain d where d: "d \<in> walked keep root" "same_project d d'"
    by blast
  from same_project_subdir_back [OF d(2) sub.hyps(2)]
  obtain s where s: "s \<in> set (subdirs d)" "same_project s s'"
    by blast
  have "keep (dname s)"
    using sub.hyps(3) same_project_fields(1) [OF s(2)] by simp
  with d(1) s(1) have "s \<in> walked keep root"
    by (rule walked.sub)
  with s(2) show ?case
    by blast
qed

lemma dir_imports_set:
  "set (dir_imports d) =
     (\<Union>file \<in> set (files d). if endswith (fst file) ''.py'' then set (file_imports (snd file)) else {})"
  by (auto simp add: dir_imports_def split: if_splits)

lemma same_project_dir_imports:
  assumes "same_project d d'"
  shows "set (dir_imports d) = set (dir_imports d')"
proof -
  have "set (files d) = set (files d')"
    using same_project_fields(2) [OF assms] by (rule mset_eq_setD)
  then show ?thesis
    by (simp add: dir_imports_set)
qed

lemma scan_python_files_set:
  "set (scan_python_files root) =
     (\<Union>d \<in> walked (\<lambda>name. name \<notin> exclude_dirs) root. set (dir_imports d))"
proof -
  have "set (scan_python_files root) =
     (\<Union>d \<in> snd ` set (os_walk (\<lambda>name. name \<notin> exclude_dirs) [] root). set (dir_imports d))"
    by (simp add: scan_python_files_def)
  then show ?thesis
    by (simp only: set_os_walk)
qed

lemma same_project_scan_python_files:
  assumes "same_project root root'"
  shows "set (scan_python_files root) = set (scan_python_files root')"
proof (intro set_eqI iffI)
  fix c
  assume "c \<in> set (scan_python_files root)"
  then obtain d where "d \<in> walked (\<lambda>name. name \<notin> exclude_dirs) root" and "c \<in> set (dir_imports d)"
    by (auto simp add: scan_python_files_set)
  moreover from this(1) obtain d' where "d' \<in> walked (\<lambda>name. name \<notin> exclude_dirs) root'"
    and "same_project d d'"
    using walked_same_project [OF assms] by blast
  ultimately show "c \<in> set (scan_python_files root')"
    using same_project_dir_imports by (auto simp add: scan_python_files_set)
next
  fix c
  assume "c \<in> set (scan_python_files root')"
  then obtain d' where "d' \<in> walked (\<lambda>name. name \<notin> exclude_dirs) root'" and "c \<in> set (dir_imports d')"
    by (auto simp add: scan_python_files_set)
  moreover from this(1) obtain d where "d \<in> walked (\<lambda>name. name \<notin> exclude_dirs) root"
    and "same_project d d'"
    using walked_same_project_back [OF assms] by blast
  ultimately show "c \<in> set (scan_python_files root)"
    using same_project_dir_imports by (auto simp add: scan_python_files_set)
qed

lemma same_project_filenames:
  assumes "same_project d d'"
  shows "set (filenames d) = set (filenames d')"
proof -
  have "set (files d) = set (files d')"
    using same_project_fields(2) [OF assms] by (rule mset_eq_setD)
  then show ?thesis
    by (simp add: filenames_def)
qed

lemma same_project_find_local_modules:
  assumes "same_project root root'"
  shows "find_local_modules root = find_local_modules root'"
proof (intro set_eqI iffI)
  fix name
  assume "name \<in> find_local_modules root"
  then consider "name = dname root"
    | d where "d \<in> walked (\<lambda>name. True) root" "''__init__.py'' \<in> set (filenames d)" "dname d = name"
    by (auto simp add: find_local_modules_iff)
  then show "name \<in> find_local_modules root'"
  proof cases
    case 1
    then show ?thesis
      using same_project_fields(1) [OF assms] by (simp add: find_local_modules_iff)
  next
    case 2
    from walked_same_project [OF assms 2(1)]
    obtain d' where "d' \<in> walked (\<lambda>name. True) root'" and "same_project d d'"
      by blast
    then show ?thesis
      using 2(2,3) same_project_filenames same_project_fields(1)
      by (auto simp add: find_local_modules_iff)
  qed
next
  fix name
  assume "name \<in> find_local_modules root'"
  then consider "name = dname root'"
    | d' where "d' \<in> walked (\<lambda>name. True) root'" "''__init__.py'' \<in> set (filenames d')" "dname d' = name"
    by (auto simp add: find_local_modules_iff)
  then show "name \<in> find_local_modules root"
  proof cases
    case 1
    then show ?thesis
      using same_project_fields(1) [OF assms] by (simp add: find_local_modules_iff)
  next
    case 2
    from walked_same_project_back [OF assms 2(1)]
    obtain d where "d \<in> walked (\<lambda>name. True) root" and "same_project d d'"
      by blast
    then show ?thesis
      using 2(2,3) same_project_filenames same_project_fields(1)
      by (auto simp add: find_local_modules_iff)
  qed
qed

section \<open>Iteration order of the known tools\<close>

lemma update_absent: "k \<notin> fst ` set al \<Longrightarrow> AList.update k v al = al @ [(k, v)]"
  by (induction al) auto

lemma known_tools_lower_all: "list_all (\<lambda>tool. lower tool = tool) KNOWN_CLI_AND_CONFIG_TOOLS"
  by code_simp

lemma known_tools_lower: "tool \<in> set KNOWN_CLI_AND_CONFIG_TOOLS \<Longrightarrow> lower tool = tool"
  using known_tools_lower_all by (simp add: list_all_iff)

lemma check_tool_own_name:
  assumes "idx tool = None \<or> (\<exists>d. idx tool = Some d \<and>
             (dist_name d = None \<or> dist_name d = Some [] \<or> dist_name d = Some tool))"
  shows "final_requirements (check_tool idx tool g) =
           (if tool \<notin> dict_keys (final_requirements g) \<and> tool_installed idx tool
            then final_requirements g @ [(tool, tool_version idx tool)]
            else final_requirements g)"
  using assms
  by (auto simp add: check_tool_final tool_installed_def tool_version_def update_absent
      dict_keys_def split: option.splits)

lemma check_tools_own_name:
  assumes "distinct order"
    and "\<forall>tool \<in> set order. idx tool = None \<or> (\<exists>d. idx tool = Some d \<and>
          (dist_name d = None \<or> dist_name d = Some [] \<or> dist_name d = Some tool))"
  shows "final_requirements (check_tools idx order g) =
           final_requirements g @
           map (\<lambda>tool. (tool, tool_version idx tool))
             (filter (\<lambda>tool. tool \<notin> dict_keys (final_requirements g) \<and> tool_installed idx tool)
                order)"
  using assms unfolding check_tools_def
proof (induction order arbitrary: g)
  case Nil
  then show ?case by simp
next
  case (Cons tool order)
  let ?g1 = "check_tool idx tool g"
  have step: "final_requirements ?g1 =
           (if tool \<notin> dict_keys (final_requirements g) \<and> tool_installed idx tool
            then final_requirements g @ [(tool, tool_version idx tool)]
            else final_requirements g)"
    using Cons.prems(2) by (intro check_tool_own_name) simp
  have rest: "filter (\<lambda>t. t \<notin> dict_keys (final_requirements ?g1) \<and> tool_installed idx t) order =
              filter (\<lambda>t. t \<notin> dict_keys (final_requirements g) \<and> tool_installed idx t) order"
    using Cons.prems(1) by (intro filter_cong) (auto simp add: step dict_keys_def)
  have "final_requirements (fold (check_tool idx) order ?g1) =
          final_requirements ?g1 @
          map (\<lambda>tool. (tool, tool_version idx tool))
            (filter (\<lambda>t. t \<notin> dict_keys (final_requirements ?g1) \<and> tool_installed idx t) order)"
    using Cons.prems by (intro Cons.IH) simp_all
  then have "final_requirements (fold (check_tool idx) order ?g1) =
          final_requirements ?g1 @
          map (\<lambda>tool. (tool, tool_version idx tool))
            (filter (\<lambda>t. t \<notin> dict_keys (final_requirements g) \<and> tool_installed idx t) order)"
    by (simp only: rest)
  then show ?case
    by (simp add: step)
qed

lemma filter_eq_distinct:
  "distinct xs \<Longrightarrow> filter (\<lambda>x. c = x \<and> P x) xs = (if c \<in> set xs \<and> P c then [c] else [])"
  by (induction xs) auto

lemma sort_key_tools_order:
  assumes "distinct order" and "distinct order'" and "set order = set order'"
    and "\<forall>tool \<in> set order. lower tool = tool"
  shows "sort_key (\<lambda>item. lower (fst item)) (reqs @ map (\<lambda>tool. (tool, v tool)) (filter P order)) =
         sort_key (\<lambda>item. lower (fst item)) (reqs @ map (\<lambda>tool. (tool, v tool)) (filter P order'))"
    (is "sort_key ?key (reqs @ ?added) = sort_key ?key (reqs @ ?added')")
proof (rule properties_for_sort_key)
  have "mset order = mset order'"
    using assms(1-3) by (simp add: set_eq_iff_mset_eq_distinct)
  then have "mset (filter P order) = mset (filter P order')"
    by (simp only: mset_filter)
  then have "mset ?added = mset ?added'"
    by (simp only: mset_map)
  then show "mset (sort_key ?key (reqs @ ?added')) = mset (reqs @ ?added)"
    by simp
next
  show "sorted (map ?key (sort_key ?key (reqs @ ?added')))"
    by simp
next
  fix item
  have added: "filter (\<lambda>x. c = ?key x) (map (\<lambda>tool. (tool, v tool)) (filter P ord)) =
          map (\<lambda>tool. (tool, v tool)) (if c \<in> set ord \<and> P c then [c] else [])"
    if "distinct ord" and "\<forall>tool \<in> set ord. lower tool = tool" for c ord
  proof -
    have "filter (\<lambda>x. c = ?key x) (map (\<lambda>tool. (tool, v tool)) (filter P ord)) =
            map (\<lambda>tool. (tool, v tool)) (filter (\<lambda>tool. c = lower tool \<and> P tool) ord)"
      by (simp add: filter_map comp_def conj_commute)
    also have "filter (\<lambda>tool. c = lower tool \<and> P tool) ord = filter (\<lambda>tool. c = tool \<and> P tool) ord"
      using that(2) by (intro filter_cong) auto
    also have "\<dots> = (if c \<in> set ord \<and> P c then [c] else [])"
      using that(1) by (rule filter_eq_distinct)
    finally show ?thesis .
  qed
  have "filter (\<lambda>x. ?key item = ?key x) (sort_key ?key (reqs @ ?added')) =
          filter (\<lambda>x. ?key item = ?key x) (reqs @ ?added')"
    using sort_key_stable [of ?key "?key item" "reqs @ ?added'"] by (simp add: eq_commute)
  also have "\<dots> = filter (\<lambda>x. ?key item = ?key x) (reqs @ ?added)"
    using added [OF assms(1,4)] added [OF assms(2)] assms(3,4) by simp
  finally show "filter (\<lambda>x. ?key item = ?key x) (sort_key ?key (reqs @ ?added')) =
          filter (\<lambda>x. ?key item = ?key x) (reqs @ ?added)" .
qed

lemma write_file_tools_order:
  assumes "tool_iteration order" and "tool_iteration order'" and "tools_report_own_name idx"
  shows "write_file (final_requirements (check_tools idx order g)) =
         write_file (final_requirements (check_tools idx order' g))"
proof -
  have own: "\<forall>tool \<in> set ord. idx tool = None \<or> (\<exists>d. idx tool = Some d \<and>
          (dist_name d = None \<or> dist_name d = Some [] \<or> dist_name d = Some tool))"
    if "tool_iteration ord" for ord
    using that assms(3) by (auto simp add: tool_iteration_def tools_report_own_name_def)
  have final: "final_requirements (check_tools idx ord g) =
           final_requirements g @
           map (\<lambda>tool. (tool, tool_version idx tool))
             (filter (\<lambda>tool. tool \<notin> dict_keys (final_requirements g) \<and> tool_installed idx tool)
                ord)"
    if "tool_iteration ord" for ord
    using that own [OF that] by (intro check_tools_own_name) (simp_all add: tool_iteration_def)
  have "sort_key (\<lambda>item. lower (fst item)) (final_requirements (check_tools idx order g)) =
        sort_key (\<lambda>item. lower (fst item)) (final_requirements (check_tools idx order' g))"
    unfolding final [OF assms(1)] final [OF assms(2)]
    using assms(1,2) known_tools_lower
    by (intro sort_key_tools_order) (simp_all add: tool_iteration_def)
  then show ?thesis
    by (simp add: write_file_def)
qed

section \<open>Reproducibility of the manifest\<close>

lemma known_tools_distinct: "distinct KNOWN_CLI_AND_CONFIG_TOOLS"
  by (simp add: KNOWN_CLI_AND_CONFIG_TOOLS_def)

lemma tool_iteration_listed:
  "tool_iteration KNOWN_CLI_AND_CONFIG_TOOLS" "tool_iteration (rev KNOWN_CLI_AND_CONFIG_TOOLS)"
  by (simp_all add: tool_iteration_def known_tools_distinct)

lemma same_project_refl: "same_project d d"
proof (induction d)
  case (Dir name fs subs)
  then have "list_all2 same_project subs subs"
    by (simp add: list_all2_same)
  then show ?case
    by (intro same_project.listing [where subs'' = subs]) simp_all
qed

lemma run_same_project:
  assumes "same_project root root'"
    and "set (scan_django_settings root_parent root) = set (scan_django_settings root_parent' root')"
  shows "resolve_imports idx (sorted_list_of_set (external_imports (init_generator stdlib root)
           (scan_python_files root @ scan_django_settings root_parent root)))
           (init_generator stdlib root) =
         resolve_imports idx (sorted_list_of_set (external_imports (init_generator stdlib root')
           (scan_python_files root' @ scan_django_settings root_parent' root')))
           (init_generator stdlib root')"
proof -
  have init: "init_generator stdlib root = init_generator stdlib root'"
    using same_project_find_local_modules [OF assms(1)] by (simp add: init_generator_def)
  have "set (scan_python_files root @ scan_django_settings root_parent root) =
        set (scan_python_files root' @ scan_django_settings root_parent' root')"
    using same_project_scan_python_files [OF assms(1)] assms(2) by simp
  then have "external_imports (init_generator stdlib root')
               (scan_python_files root @ scan_django_settings root_parent root) =
             external_imports (init_generator stdlib root')
               (scan_python_files root' @ scan_django_settings root_parent' root')"
    by (simp only: external_imports_def set_filter)
  then show ?thesis
    by (simp add: init)
qed

text \<open>
  C4, as the code has it. Two runs of the syntactic variant on two listings of one project,
  with the known tools visited in any two orders, write the same manifest and end alike,
  provided the settings scan finds the same names in both listings (it reads the first
  settings module the walk meets) and the index reports the known tools under their own
  names. The order in which the set of candidates is visited never matters: the candidates
  are sorted before they are resolved.
\<close>

theorem manifest_is_reproducible:
  assumes "same_project root root'"
    and "set (scan_django_settings root_parent root) = set (scan_django_settings root_parent' root')"
    and "tool_iteration order" and "tool_iteration order'"
    and "tools_report_own_name idx"
  shows "main idx order stdlib root_parent root = main idx order' stdlib root_parent' root'"
proof -
  have "write_file (final_requirements (run idx order root_parent root (init_generator stdlib root))) =
        write_file (final_requirements (run idx order' root_parent' root' (init_generator stdlib root')))"
    unfolding run_def resolve_discovered_def run_same_project [OF assms(1,2)]
    using assms(3-5) by (rule write_file_tools_order)
  then show ?thesis
    by (simp add: main_def)
qed

theorem manifest_is_reproducible_witness:
  "main example_index KNOWN_CLI_AND_CONFIG_TOOLS {''os'', ''sys''} [] one_settings_project =
     main example_index (rev KNOWN_CLI_AND_CONFIG_TOOLS) {''os'', ''sys''} []
       one_settings_project_relisted
   \<and> manifest (main example_index KNOWN_CLI_AND_CONFIG_TOOLS {''os'', ''sys''} []
        one_settings_project) =
       Some (first_edition_header @ ''beautifulsoup4==4.12.0'' @ newline
               @ ''pytest==8.0.0'' @ newline @ ''requests==2.31.0'' @ newline)"
proof -
  have listings: "same_project one_settings_project one_settings_project_relisted"
    unfolding one_settings_project_def one_settings_project_relisted_def
    by (rule same_project.listing [where subs'' = "[shop_settings, Dir ''docs'' [] []]"])
      (simp_all add: same_project_refl)
  have settings: "set (scan_django_settings [] one_settings_project) =
                  set (scan_django_settings [] one_settings_project_relisted)"
    by code_simp
  note order = tool_iteration_listed(1) and order' = tool_iteration_listed(2)
  have own: "tools_report_own_name example_index"
    by (simp add: tools_report_own_name_def KNOWN_CLI_AND_CONFIG_TOOLS_def example_index_def)
  have written: "manifest (main example_index KNOWN_CLI_AND_CONFIG_TOOLS {''os'', ''sys''} []
        one_settings_project) =
       Some (first_edition_header @ ''beautifulsoup4==4.12.0'' @ newline
               @ ''pytest==8.0.0'' @ newline @ ''requests==2.31.0'' @ newline)"
    by code_simp
  from manifest_is_reproducible [OF listings settings order order' own, of "{''os'', ''sys''}"]
    written
  show ?thesis
    by (intro conjI)
qed

text \<open>
  C4 as stated fails twice: two listings of a project with two settings modules give two
  manifests, and so do two orders of visiting the known tools when the index reports one
  name for two of them.
\<close>

theorem manifest_depends_on_listing_and_tool_order:
  "same_project two_settings_project two_settings_project_relisted
   \<and> manifest (main example_index KNOWN_CLI_AND_CONFIG_TOOLS {''os'', ''sys''} []
        two_settings_project) =
       Some (first_edition_header @ ''pytest==8.0.0'' @ newline @ ''requests==2.31.0'' @ newline)
   \<and> manifest (main example_index KNOWN_CLI_AND_CONFIG_TOOLS {''os'', ''sys''} []
        two_settings_project_relisted) =
       Some (first_edition_header @ ''beautifulsoup4==4.12.0'' @ newline @ ''pytest==8.0.0'' @ newline)
   \<and> tool_iteration KNOWN_CLI_AND_CONFIG_TOOLS \<and> tool_iteration (rev KNOWN_CLI_AND_CONFIG_TOOLS)
   \<and> manifest (main clash_index KNOWN_CLI_AND_CONFIG_TOOLS {''os'', ''sys''} [] empty_project) =
       Some (first_edition_header @ ''shared==2.0'' @ newline)
   \<and> manifest (main clash_index (rev KNOWN_CLI_AND_CONFIG_TOOLS) {''os'', ''sys''} [] empty_project) =
       Some (first_edition_header @ ''shared==1.0'' @ newline)"
proof (intro conjI)
  show "same_project two_settings_project two_settings_project_relisted"
    unfolding two_settings_project_def two_settings_project_relisted_def
    by (rule same_project.listing [where subs'' = "[shop_settings, blog_settings]"])
      (simp_all add: same_project_refl)
  show "tool_iteration KNOWN_CLI_AND_CONFIG_TOOLS"
    by (rule tool_iteration_listed)
  show "tool_iteration (rev KNOWN_CLI_AND_CONFIG_TOOLS)"
    by (rule tool_iteration_listed)
  show "manifest (main example_index KNOWN_CLI_AND_CONFIG_TOOLS {''os'', ''sys''} []
        two_settings_project) =
       Some (first_edition_header @ ''pytest==8.0.0'' @ newline @ ''requests==2.31.0'' @ newline)"
    by code_simp
  show "manifest (main example_index KNOWN_CLI_AND_CONFIG_TOOLS {''os'', ''sys''} []
        two_settings_project_relisted) =
       Some (first_edition_header @ ''beautifulsoup4==4.12.0'' @ newline @ ''pytest==8.0.0'' @ newline)"
    by code_simp
  show "manifest (main clash_index KNOWN_CLI_AND_CONFIG_TOOLS {''os'', ''sys''} [] empty_project) =
       Some (first_edition_header @ ''shared==2.0'' @ newline)"
    by code_simp
  show "manifest (main clash_index (rev KNOWN_CLI_AND_CONFIG_TOOLS) {''os'', ''sys''} [] empty_project) =
       Some (first_edition_header @ ''shared==1.0'' @ newline)"
    by code_simp
qed


section \<open>The name under which the index is consulted\<close>

lemma resolve_import_unresolved:
  "unresolved_imports (resolve_import idx imp g) =
     (case idx (dict_get IMPORT_TO_PYPI_MAP imp imp) of
        None \<Rightarrow> insert imp (unresolved_imports g)
      | Some d \<Rightarrow>
          if truthy (dist_name d) then unresolved_imports g
          else insert imp (unresolved_imports g))"
  by (simp add: resolve_import_def get_package_info_def Let_def split: option.splits)

lemma resolve_package_messages:
  "messages (resolve_package idx pkg g) =
     (case idx (dict_get GEMINI_IMPORT_TO_PYPI_MAP pkg pkg) of
        None \<Rightarrow> messages g @ [Warning_not_installed pkg]
      | Some d \<Rightarrow> messages g)"
  by (simp add: resolve_package_def Let_def split: option.splits)

lemma resolve_import_same_index:
  assumes "idx (dict_get IMPORT_TO_PYPI_MAP imp imp) = idx' (dict_get IMPORT_TO_PYPI_MAP imp imp)"
  shows "resolve_import idx imp g = resolve_import idx' imp g"
  using assms by (simp add: resolve_import_def get_package_info_def)

lemma resolve_imports_same_index:
  assumes "\<forall>imp \<in> set imps.
      idx (dict_get IMPORT_TO_PYPI_MAP imp imp) = idx' (dict_get IMPORT_TO_PYPI_MAP imp imp)"
  shows "resolve_imports idx imps g = resolve_imports idx' imps g"
  using assms unfolding resolve_imports_def
proof (induction imps arbitrary: g)
  case Nil
  show ?case by simp
next
  case (Cons imp imps)
  have "resolve_import idx imp g = resolve_import idx' imp g"
    using Cons.prems by (intro resolve_import_same_index) simp
  then show ?case
    using Cons by simp
qed

lemma resolve_package_same_index:
  assumes "idx (dict_get GEMINI_IMPORT_TO_PYPI_MAP pkg pkg) =
           idx' (dict_get GEMINI_IMPORT_TO_PYPI_MAP pkg pkg)"
  shows "resolve_package idx pkg g = resolve_package idx' pkg g"
  using assms by (simp add: resolve_package_def)

lemma resolve_packages_same_index:
  assumes "\<forall>pkg \<in> set pkgs.
      idx (dict_get GEMINI_IMPORT_TO_PYPI_MAP pkg pkg) =
      idx' (dict_get GEMINI_IMPORT_TO_PYPI_MAP pkg pkg)"
  shows "fold (resolve_package idx) pkgs g = fold (resolve_package idx') pkgs g"
  using assms
proof (induction pkgs arbitrary: g)
  case Nil
  show ?case by simp
next
  case (Cons pkg pkgs)
  have "resolve_package idx pkg g = resolve_package idx' pkg g"
    using Cons.prems by (intro resolve_package_same_index) simp
  then show ?case
    using Cons by simp
qed

lemma parse_and_resolve_versions_same_index:
  assumes "\<forall>pkg \<in> set (potential_packages gemini_output).
      idx (dict_get GEMINI_IMPORT_TO_PYPI_MAP pkg pkg) =
      idx' (dict_get GEMINI_IMPORT_TO_PYPI_MAP pkg pkg)"
  shows "parse_and_resolve_versions idx gemini_output g =
         parse_and_resolve_versions idx' gemini_output g"
  using assms
  by (simp add: parse_and_resolve_versions_def resolve_packages_same_index)

text \<open>
  C7. In both variants the step for a candidate consults the index under the name the
  static map gives for it, and under no other. What the step records is what the index
  holds at that name: the entry it adds to the mapping, and whether the candidate is
  reported as unresolved or not installed. A loop over candidates gives one result for any
  two indexes that agree at the mapped names of the candidates, whatever they hold at the
  candidates themselves. The mapped name is the table's value for a candidate that is a key
  of the table, which always differs from the candidate, and the candidate itself for any
  other. The names passed to the index, in call order, are the mapped names of the
  candidates in processing order.
\<close>

theorem lookup_name_is_mapped_value:
  "final_requirements (resolve_import idx imp g) =
     (case idx (dict_get IMPORT_TO_PYPI_MAP imp imp) of
        None \<Rightarrow> final_requirements g
      | Some d \<Rightarrow>
          (case dist_name d of
             None \<Rightarrow> final_requirements g
           | Some reported \<Rightarrow>
               if reported \<noteq> [] \<and> reported \<notin> dict_keys (final_requirements g)
               then AList.update reported (dist_version d) (final_requirements g)
               else final_requirements g))
   \<and> gemini_final_requirements (resolve_package idx pkg gg) =
     (case idx (dict_get GEMINI_IMPORT_TO_PYPI_MAP pkg pkg) of
        None \<Rightarrow> gemini_final_requirements gg
      | Some d \<Rightarrow>
          if dist_name d \<notin> dict_keys (gemini_final_requirements gg)
          then AList.update (dist_name d) (dist_version d) (gemini_final_requirements gg)
          else gemini_final_requirements gg)
   \<and> unresolved_imports (resolve_import idx imp g) =
     (case idx (dict_get IMPORT_TO_PYPI_MAP imp imp) of
        None \<Rightarrow> insert imp (unresolved_imports g)
      | Some d \<Rightarrow>
          if truthy (dist_name d) then unresolved_imports g
          else insert imp (unresolved_imports g))
   \<and> ((\<forall>c \<in> set imps.
         idx (dict_get IMPORT_TO_PYPI_MAP c c) = idx' (dict_get IMPORT_TO_PYPI_MAP c c)) \<longrightarrow>
       resolve_imports idx imps g = resolve_imports idx' imps g)
   \<and> ((\<forall>c \<in> set (potential_packages gemini_output).
         idx (dict_get GEMINI_IMPORT_TO_PYPI_MAP c c) =
         idx' (dict_get GEMINI_IMPORT_TO_PYPI_MAP c c)) \<longrightarrow>
       parse_and_resolve_versions idx gemini_output gg =
       parse_and_resolve_versions idx' gemini_output gg)
   \<and> messages (resolve_package idx pkg gg) =
     (case idx (dict_get GEMINI_IMPORT_TO_PYPI_MAP pkg pkg) of
        None \<Rightarrow> messages gg @ [Warning_not_installed pkg]
      | Some d \<Rightarrow> messages gg)
   \<and> ((name, v) \<in> set IMPORT_TO_PYPI_MAP \<longrightarrow>
        dict_get IMPORT_TO_PYPI_MAP name name = v \<and> v \<noteq> name)
   \<and> (name \<notin> fst ` set IMPORT_TO_PYPI_MAP \<longrightarrow> dict_get IMPORT_TO_PYPI_MAP name name = name)
   \<and> ((name, w) \<in> set GEMINI_IMPORT_TO_PYPI_MAP \<longrightarrow>
        dict_get GEMINI_IMPORT_TO_PYPI_MAP name name = w \<and> w \<noteq> name)
   \<and> (name \<notin> fst ` set GEMINI_IMPORT_TO_PYPI_MAP \<longrightarrow>
        dict_get GEMINI_IMPORT_TO_PYPI_MAP name name = name)
   \<and> queries (resolve_imports idx imps g) =
     queries g @ map (\<lambda>c. dict_get IMPORT_TO_PYPI_MAP c c) imps
   \<and> gemini_queries (parse_and_resolve_versions idx gemini_output gg) =
     gemini_queries gg @
     map (\<lambda>c. dict_get GEMINI_IMPORT_TO_PYPI_MAP c c) (sort (potential_packages gemini_output))"
proof (intro conjI impI)
  show "final_requirements (resolve_import idx imp g) =
     (case idx (dict_get IMPORT_TO_PYPI_MAP imp imp) of
        None \<Rightarrow> final_requirements g
      | Some d \<Rightarrow>
          (case dist_name d of
             None \<Rightarrow> final_requirements g
           | Some reported \<Rightarrow>
               if reported \<noteq> [] \<and> reported \<notin> dict_keys (final_requirements g)
               then AList.update reported (dist_version d) (final_requirements g)
               else final_requirements g))"
    by (rule resolve_import_final)
  show "gemini_final_requirements (resolve_package idx pkg gg) =
     (case idx (dict_get GEMINI_IMPORT_TO_PYPI_MAP pkg pkg) of
        None \<Rightarrow> gemini_final_requirements gg
      | Some d \<Rightarrow>
          if dist_name d \<notin> dict_keys (gemini_final_requirements gg)
          then AList.update (dist_name d) (dist_version d) (gemini_final_requirements gg)
          else gemini_final_requirements gg)"
    by (rule resolve_package_final)
  show "unresolved_imports (resolve_import idx imp g) =
     (case idx (dict_get IMPORT_TO_PYPI_MAP imp imp) of
        None \<Rightarrow> insert imp (unresolved_imports g)
      | Some d \<Rightarrow>
          if truthy (dist_name d) then unresolved_imports g
          else insert imp (unresolved_imports g))"
    by (rule resolve_import_unresolved)
  show "resolve_imports idx imps g = resolve_imports idx' imps g"
    if "\<forall>c \<in> set imps.
         idx (dict_get IMPORT_TO_PYPI_MAP c c) = idx' (dict_get IMPORT_TO_PYPI_MAP c c)"
    using that by (rule resolve_imports_same_index)
  show "parse_and_resolve_versions idx gemini_output gg =
       parse_and_resolve_versions idx' gemini_output gg"
    if "\<forall>c \<in> set (potential_packages gemini_output).
         idx (dict_get GEMINI_IMPORT_TO_PYPI_MAP c c) =
         idx' (dict_get GEMINI_IMPORT_TO_PYPI_MAP c c)"
    using that by (rule parse_and_resolve_versions_same_index)
  show "messages (resolve_package idx pkg gg) =
     (case idx (dict_get GEMINI_IMPORT_TO_PYPI_MAP pkg pkg) of
        None \<Rightarrow> messages gg @ [Warning_not_installed pkg]
      | Some d \<Rightarrow> messages gg)"
    by (rule resolve_package_messages)
  show "dict_get IMPORT_TO_PYPI_MAP name name = v" if "(name, v) \<in> set IMPORT_TO_PYPI_MAP"
    using that by (rule dict_get_present [OF import_map_keys_distinct])
  show "v \<noteq> name" if "(name, v) \<in> set IMPORT_TO_PYPI_MAP"
    using that by (rule import_map_no_fixed_point)
  show "dict_get IMPORT_TO_PYPI_MAP name name = name" if "name \<notin> fst ` set IMPORT_TO_PYPI_MAP"
    using that by (rule dict_get_absent)
  show "dict_get GEMINI_IMPORT_TO_PYPI_MAP name name = w"
    if "(name, w) \<in> set GEMINI_IMPORT_TO_PYPI_MAP"
    using that by (rule dict_get_present [OF gemini_map_keys_distinct])
  show "w \<noteq> name" if "(name, w) \<in> set GEMINI_IMPORT_TO_PYPI_MAP"
    using that by (rule gemini_map_no_fixed_point)
  show "dict_get GEMINI_IMPORT_TO_PYPI_MAP name name = name"
    if "name \<notin> fst ` set GEMINI_IMPORT_TO_PYPI_MAP"
    using that by (rule dict_get_absent)
  show "queries (resolve_imports idx imps g) =
          queries g @ map (\<lambda>c. dict_get IMPORT_TO_PYPI_MAP c c) imps"
    by (rule queries_resolve_imports)
  show "gemini_queries (parse_and_resolve_versions idx gemini_output gg) =
          gemini_queries gg @
          map (\<lambda>c. dict_get GEMINI_IMPORT_TO_PYPI_MAP c c)
            (sort (potential_packages gemini_output))"
    by (rule queries_parse_and_resolve_versions)
qed

text \<open>
  In the environment of \<open>decoy_index\<close> the candidate \<open>bs4\<close> is recorded as
  \<open>beautifulsoup4\<close> 4.12.0, not as the distribution \<open>bs4\<close> 0.0.2 that a lookup of the
  candidate itself would find.
\<close>

theorem lookup_name_is_mapped_value_witness:
  "final_requirements (resolve_import decoy_index ''bs4'' example_generator) =
     [(''beautifulsoup4'', Some ''4.12.0'')]
   \<and> gemini_final_requirements (resolve_package decoy_index ''bs4'' example_gemini_generator) =
     [(Some ''beautifulsoup4'', Some ''4.12.0'')]
   \<and> unresolved_imports (resolve_import decoy_index ''bs4'' example_generator) = {}
   \<and> resolve_imports decoy_index [''bs4''] example_generator =
     resolve_imports example_index [''bs4''] example_generator
   \<and> parse_and_resolve_versions decoy_index '' bs4 '' example_gemini_generator =
     parse_and_resolve_versions example_index '' bs4 '' example_gemini_generator
   \<and> dict_get IMPORT_TO_PYPI_MAP ''bs4'' ''bs4'' = ''beautifulsoup4''
   \<and> dict_get GEMINI_IMPORT_TO_PYPI_MAP ''bs4'' ''bs4'' = ''beautifulsoup4''
   \<and> dict_get IMPORT_TO_PYPI_MAP ''requests'' ''requests'' = ''requests''"
proof -
  note inst = lookup_name_is_mapped_value
    [of decoy_index "''bs4''" example_generator "''bs4''" example_gemini_generator
      "[''bs4'']" example_index "'' bs4 ''" "''bs4''" "''beautifulsoup4''" "''beautifulsoup4''"]
  note fallback = lookup_name_is_mapped_value
    [of decoy_index "''bs4''" example_generator "''bs4''" example_gemini_generator
      "[]" example_index "[]" "''requests''" "[]" "[]"]
  have recorded: "(case decoy_index (dict_get IMPORT_TO_PYPI_MAP ''bs4'' ''bs4'') of
        None \<Rightarrow> final_requirements example_generator
      | Some d \<Rightarrow>
          (case dist_name d of
             None \<Rightarrow> final_requirements example_generator
           | Some reported \<Rightarrow>
               if reported \<noteq> [] \<and> reported \<notin> dict_keys (final_requirements example_generator)
               then AList.update reported (dist_version d) (final_requirements example_generator)
               else final_requirements example_generator)) =
      [(''beautifulsoup4'', Some ''4.12.0'')]"
    by code_simp
  have recorded': "(case decoy_index (dict_get GEMINI_IMPORT_TO_PYPI_MAP ''bs4'' ''bs4'') of
        None \<Rightarrow> gemini_final_requirements example_gemini_generator
      | Some d \<Rightarrow>
          if dist_name d \<notin> dict_keys (gemini_final_requirements example_gemini_generator)
          then AList.update (dist_name d) (dist_version d)
                 (gemini_final_requirements example_gemini_generator)
          else gemini_final_requirements example_gemini_generator) =
      [(Some ''beautifulsoup4'', Some ''4.12.0'')]"
    by code_simp
  have resolved: "(case decoy_index (dict_get IMPORT_TO_PYPI_MAP ''bs4'' ''bs4'') of
        None \<Rightarrow> insert ''bs4'' (unresolved_imports example_generator)
      | Some d \<Rightarrow>
          if truthy (dist_name d) then unresolved_imports example_generator
          else insert ''bs4'' (unresolved_imports example_generator)) = {}"
    by code_simp
  have agree: "\<forall>c \<in> set [''bs4''].
      decoy_index (dict_get IMPORT_TO_PYPI_MAP c c) = example_index (dict_get IMPORT_TO_PYPI_MAP c c)"
    by code_simp
  have agree': "\<forall>c \<in> set (potential_packages '' bs4 '').
      decoy_index (dict_get GEMINI_IMPORT_TO_PYPI_MAP c c) =
      example_index (dict_get GEMINI_IMPORT_TO_PYPI_MAP c c)"
    by code_simp
  have key: "(''bs4'', ''beautifulsoup4'') \<in> set IMPORT_TO_PYPI_MAP"
    by (simp add: IMPORT_TO_PYPI_MAP_def)
  have key': "(''bs4'', ''beautifulsoup4'') \<in> set GEMINI_IMPORT_TO_PYPI_MAP"
    by (simp add: GEMINI_IMPORT_TO_PYPI_MAP_def)
  have no_key: "''requests'' \<notin> fst ` set IMPORT_TO_PYPI_MAP"
    by (simp add: IMPORT_TO_PYPI_MAP_def)
  note rest = inst [THEN conjunct2, THEN conjunct2, THEN conjunct2]
  note tables = rest [THEN conjunct2, THEN conjunct2, THEN conjunct2]
  have c1: "final_requirements (resolve_import decoy_index ''bs4'' example_generator) =
     [(''beautifulsoup4'', Some ''4.12.0'')]"
    using inst [THEN conjunct1] recorded by (rule trans)
  have c2: "gemini_final_requirements (resolve_package decoy_index ''bs4'' example_gemini_generator) =
     [(Some ''beautifulsoup4'', Some ''4.12.0'')]"
    using inst [THEN conjunct2, THEN conjunct1] recorded' by (rule trans)
  have c3: "unresolved_imports (resolve_import decoy_index ''bs4'' example_generator) = {}"
    using inst [THEN conjunct2, THEN conjunct2, THEN conjunct1] resolved by (rule trans)
  have c4: "resolve_imports decoy_index [''bs4''] example_generator =
     resolve_imports example_index [''bs4''] example_generator"
    using rest [THEN conjunct1] agree by (rule mp)
  have c5: "parse_and_resolve_versions decoy_index '' bs4 '' example_gemini_generator =
     parse_and_resolve_versions example_index '' bs4 '' example_gemini_generator"
    using rest [THEN conjunct2, THEN conjunct1] agree' by (rule mp)
  have c6: "dict_get IMPORT_TO_PYPI_MAP ''bs4'' ''bs4'' = ''beautifulsoup4''"
    using tables [THEN conjunct1, THEN mp, OF key] by (rule conjunct1)
  have c7: "dict_get GEMINI_IMPORT_TO_PYPI_MAP ''bs4'' ''bs4'' = ''beautifulsoup4''"
    using tables [THEN conjunct2, THEN conjunct2, THEN conjunct1, THEN mp, OF key']
    by (rule conjunct1)
  have c8: "dict_get IMPORT_TO_PYPI_MAP ''requests'' ''requests'' = ''requests''"
    using fallback [THEN conjunct2, THEN conjunct2, THEN conjunct2, THEN conjunct2, THEN conjunct2,
      THEN conjunct2, THEN conjunct2, THEN conjunct1, THEN mp, OF no_key] .
  from c1 c2 c3 c4 c5 c6 c7 c8 show ?thesis
    by (intro conjI)
qed


end
